theory Spec2Isabelle
  imports Main "HOL-Library.Word"
begin

unbundle bit_operations_syntax

section \<open>Rate limiter of the analytics-collect function\<close>

text \<open>
  The module-level state of \<^verbatim>\<open>analytics-collect\<close>:
  \<^verbatim>\<open>const rateLimitMap = new Map<string, { count: number; resetAt: number }>()\<close>.
  Times are the integer milliseconds of \<^verbatim>\<open>Date.now()\<close>; the counter only ever holds
  the values 1 to 100, so a natural number models it exactly.
\<close>

record window =
  count :: nat
  resetAt :: int

type_synonym rate_limit_map = "string \<rightharpoonup> window"

definition RATE_LIMIT :: nat where
  "RATE_LIMIT = 100"

definition RATE_LIMIT_WINDOW :: int where
  "RATE_LIMIT_WINDOW = 60000"

text \<open>
  \<^verbatim>\<open>checkRateLimit(apiKeyHash)\<close>, with the clock reading \<open>now\<close> and the map passed
  in; the updated map is returned beside the verdict. A rejected call returns before
  \<^verbatim>\<open>record.count++\<close> and so leaves the map as it was.
\<close>

definition checkRateLimit :: "int \<Rightarrow> string \<Rightarrow> rate_limit_map \<Rightarrow> bool \<times> rate_limit_map" where
  "checkRateLimit now apiKeyHash m =
     (case m apiKeyHash of
        None \<Rightarrow> (True, m(apiKeyHash \<mapsto> \<lparr>count = 1, resetAt = now + RATE_LIMIT_WINDOW\<rparr>))
      | Some rec \<Rightarrow>
          if now > resetAt rec
          then (True, m(apiKeyHash \<mapsto> \<lparr>count = 1, resetAt = now + RATE_LIMIT_WINDOW\<rparr>))
          else if count rec \<ge> RATE_LIMIT then (False, m)
          else (True, m(apiKeyHash \<mapsto> rec\<lparr>count := count rec + 1\<rparr>)))"

text \<open>
  A sequence of admission requests, each a clock reading and a key hash, served one after
  the other on the shared map (the handler is single-threaded between awaits and
  \<^verbatim>\<open>checkRateLimit\<close> contains no await).
\<close>

fun admit_all :: "(int \<times> string) list \<Rightarrow> rate_limit_map \<Rightarrow> bool list \<times> rate_limit_map" where
  "admit_all [] m = ([], m)"
| "admit_all ((now, k) # reqs) m =
     (let (b, m') = checkRateLimit now k m;
          (bs, m'') = admit_all reqs m'
      in (b # bs, m''))"

text \<open>The number of requests for key \<open>k\<close> among the first \<open>n\<close> of a sequence.\<close>

definition requests_for :: "string \<Rightarrow> nat \<Rightarrow> (int \<times> string) list \<Rightarrow> nat" where
  "requests_for k n reqs = length (filter (\<lambda>q. snd q = k) (take n reqs))"

section \<open>The hash of an API key\<close>

text \<open>
  Both \<^verbatim>\<open>auth-register\<close> and \<^verbatim>\<open>analytics-collect\<close> compute
  \<^verbatim>\<open>crypto.subtle.digest('SHA-256', new TextEncoder().encode(apiKey))\<close> and print each
  byte of it as two lower-case hexadecimal digits. SHA-256 is written out after FIPS 180-4.
  A \<open>string\<close> here is the UTF-8 byte sequence of the JavaScript string; the keys that
  \<^verbatim>\<open>auth-register\<close> issues are ASCII.
\<close>

type_synonym byte = "8 word"
type_synonym w32 = "32 word"

type_synonym sha_state = "w32 \<times> w32 \<times> w32 \<times> w32 \<times> w32 \<times> w32 \<times> w32 \<times> w32"

text \<open>
  The constants are given by the standard in words: the first thirty-two bits of the
  fractional parts of the cube roots of the first sixty-four primes, and, for the initial
  hash value, of the square roots of the first eight. With \<open>iroot k n\<close> the integer
  \<open>k\<close>-th root, those bits of the root of \<open>p\<close> are the low thirty-two bits of
  \<open>iroot k (p * 2 ^ (32 * k))\<close>.
\<close>

definition is_prime :: "nat \<Rightarrow> bool" where
  "is_prime p = (1 < p \<and> (\<forall>d \<in> set [2..<p]. \<not> d dvd p))"

definition first_primes :: "nat \<Rightarrow> int list" where
  "first_primes n = map int (take n (filter is_prime [2..<400]))"

fun iroot_from :: "nat \<Rightarrow> int \<Rightarrow> nat \<Rightarrow> int \<Rightarrow> int" where
  "iroot_from k n 0 r = r"
| "iroot_from k n (Suc b) r = iroot_from k n b (if (r + 2 ^ b) ^ k \<le> n then r + 2 ^ b else r)"

definition iroot :: "nat \<Rightarrow> int \<Rightarrow> int" where
  "iroot k n = iroot_from k n 64 0"

definition K256 :: "w32 list" where
  "K256 = map (\<lambda>p. of_int (iroot 3 (p * 2 ^ 96))) (first_primes 64)"

definition H256 :: sha_state where
  "H256 =
     (let hs = map (\<lambda>p. of_int (iroot 2 (p * 2 ^ 64)) :: w32) (first_primes 8)
      in (hs ! 0, hs ! 1, hs ! 2, hs ! 3, hs ! 4, hs ! 5, hs ! 6, hs ! 7))"

definition rotr :: "nat \<Rightarrow> w32 \<Rightarrow> w32" where
  "rotr n x = drop_bit n x OR push_bit (32 - n) x"

definition Ch :: "w32 \<Rightarrow> w32 \<Rightarrow> w32 \<Rightarrow> w32" where
  "Ch x y z = (x AND y) XOR (NOT x AND z)"

definition Maj :: "w32 \<Rightarrow> w32 \<Rightarrow> w32 \<Rightarrow> w32" where
  "Maj x y z = (x AND y) XOR (x AND z) XOR (y AND z)"

definition Sigma0 :: "w32 \<Rightarrow> w32" where
  "Sigma0 x = rotr 2 x XOR rotr 13 x XOR rotr 22 x"

definition Sigma1 :: "w32 \<Rightarrow> w32" where
  "Sigma1 x = rotr 6 x XOR rotr 11 x XOR rotr 25 x"

definition sigma0 :: "w32 \<Rightarrow> w32" where
  "sigma0 x = rotr 7 x XOR rotr 18 x XOR drop_bit 3 x"

definition sigma1 :: "w32 \<Rightarrow> w32" where
  "sigma1 x = rotr 17 x XOR rotr 19 x XOR drop_bit 10 x"

definition pad_message :: "byte list \<Rightarrow> byte list" where
  "pad_message bs =
     bs @ [0x80] @ replicate ((119 - length bs mod 64) mod 64) 0
        @ map (\<lambda>i. ucast (drop_bit (8 * (7 - i)) (of_nat (8 * length bs) :: 64 word))) [0..<8]"

definition be_word32 :: "byte list \<Rightarrow> w32" where
  "be_word32 bs = foldl (\<lambda>acc b. push_bit 8 acc OR ucast b) 0 bs"

definition be_bytes32 :: "w32 \<Rightarrow> byte list" where
  "be_bytes32 w = map (\<lambda>i. ucast (drop_bit (8 * (3 - i)) w)) [0..<4]"

definition blocks :: "byte list \<Rightarrow> w32 list list" where
  "blocks bs =
     map (\<lambda>i. map (\<lambda>j. be_word32 (take 4 (drop (64 * i + 4 * j) bs))) [0..<16])
       [0..<length bs div 64]"

fun schedule :: "nat \<Rightarrow> w32 list \<Rightarrow> w32 list" where
  "schedule 0 ws = ws"
| "schedule (Suc n) ws =
     schedule n
       (ws @ [sigma1 (ws ! (length ws - 2)) + ws ! (length ws - 7)
              + sigma0 (ws ! (length ws - 15)) + ws ! (length ws - 16)])"

definition sha_round :: "sha_state \<Rightarrow> w32 \<times> w32 \<Rightarrow> sha_state" where
  "sha_round st kw =
     (case st of (a, b, c, d, e, f, g, h) \<Rightarrow>
        let t1 = h + Sigma1 e + Ch e f g + fst kw + snd kw;
            t2 = Sigma0 a + Maj a b c
        in (t1 + t2, a, b, c, d + t1, e, f, g))"

definition add_state :: "sha_state \<Rightarrow> sha_state \<Rightarrow> sha_state" where
  "add_state s1 s2 =
     (case s1 of (a, b, c, d, e, f, g, h) \<Rightarrow>
      case s2 of (a', b', c', d', e', f', g', h') \<Rightarrow>
        (a + a', b + b', c + c', d + d', e + e', f + f', g + g', h + h'))"

definition compress :: "sha_state \<Rightarrow> w32 list \<Rightarrow> sha_state" where
  "compress hs block = add_state hs (foldl sha_round hs (zip K256 (schedule 48 block)))"

definition sha256 :: "byte list \<Rightarrow> byte list" where
  "sha256 bs =
     (case foldl compress H256 (blocks (pad_message bs)) of (a, b, c, d, e, f, g, h) \<Rightarrow>
        concat (map be_bytes32 [a, b, c, d, e, f, g, h]))"

definition TextEncoder_encode :: "string \<Rightarrow> byte list" where
  "TextEncoder_encode s = map of_char s"

definition toString16 :: "nat \<Rightarrow> string" where
  "toString16 b =
     (if b < 16 then [''0123456789abcdef'' ! b]
      else [''0123456789abcdef'' ! (b div 16), ''0123456789abcdef'' ! (b mod 16)])"

definition padStart :: "nat \<Rightarrow> char \<Rightarrow> string \<Rightarrow> string" where
  "padStart n c s = replicate (n - length s) c @ s"

definition hashApiKey :: "string \<Rightarrow> string" where
  "hashApiKey apiKey =
     concat (map (\<lambda>b. padStart 2 CHR ''0'' (toString16 (unat b))) (sha256 (TextEncoder_encode apiKey)))"

section \<open>JavaScript values and the responses of the edge functions\<close>

text \<open>
  An optional string of the request (a header, a query parameter, a JSON field) or of a
  nullable TEXT column is a \<open>string option\<close>, with \<open>None\<close> for
  \<^verbatim>\<open>null\<close>/\<^verbatim>\<open>undefined\<close>. JavaScript's truthiness test on it, as in \<^verbatim>\<open>if (!apiKey)\<close>
  or \<^verbatim>\<open>.filter(Boolean)\<close>, fails for \<^verbatim>\<open>null\<close> and for the empty string.
\<close>

definition truthy :: "string option \<Rightarrow> bool" where
  "truthy v = (case v of None \<Rightarrow> False | Some s \<Rightarrow> s \<noteq> [])"

text \<open>The expression \<^verbatim>\<open>v || null\<close>.\<close>

definition or_null :: "string option \<Rightarrow> string option" where
  "or_null v = (if truthy v then v else None)"

text \<open>
  \<^verbatim>\<open>new Date(s)\<close> on a string is left to the runtime by ECMAScript for every format
  but the ISO one, so the handlers take it as the parameter \<open>parseDate\<close>: the instant in
  milliseconds, or \<open>None\<close> for an Invalid Date, on which \<^verbatim>\<open>toISOString()\<close>
  throws a RangeError.
\<close>

type_synonym date_parser = "string \<Rightarrow> int option"

text \<open>
  Every handler answers with \<^verbatim>\<open>new Response(JSON.stringify(...), { status })\<close>. A failure
  carries the status and the text of its \<^verbatim>\<open>error\<close> field, as written in the source; the
  names of the specification's error taxonomy abbreviate them.
\<close>

datatype failure = Failure nat string

datatype 'a response = Preflight | Rejected failure | OK 'a

abbreviation MissingCredential :: failure where
  "MissingCredential \<equiv> Failure 401 ''Missing x-api-key header''"

abbreviation RateLimited :: failure where
  "RateLimited \<equiv> Failure 429 ''Rate limit exceeded. Maximum 100 requests per minute.''"

abbreviation InvalidCredential :: failure where
  "InvalidCredential \<equiv> Failure 401 ''Invalid API key''"

abbreviation Revoked :: failure where
  "Revoked \<equiv> Failure 401 ''API key has been revoked''"

abbreviation Expired :: failure where
  "Expired \<equiv> Failure 401 ''API key has expired''"

abbreviation InvalidPayload :: failure where
  "InvalidPayload \<equiv> Failure 400 ''Event name and URL are required''"

abbreviation StorageFailure :: failure where
  "StorageFailure \<equiv> Failure 500 ''Failed to store analytics event''"

abbreviation InternalError :: failure where
  "InternalError \<equiv> Failure 500 ''Internal server error''"

abbreviation MissingAuthorization :: failure where
  "MissingAuthorization \<equiv> Failure 401 ''Missing authorization header''"

abbreviation Unauthorized :: failure where
  "Unauthorized \<equiv> Failure 401 ''Unauthorized''"

abbreviation NotFound :: failure where
  "NotFound \<equiv> Failure 404 ''App not found or unauthorized''"

section \<open>The relational store\<close>

text \<open>
  The tables of the migration, as lists of rows. Columns that the functions neither write
  nor read (\<^verbatim>\<open>created_at\<close>, \<^verbatim>\<open>updated_at\<close>, the generated \<^verbatim>\<open>id\<close> of an event) are
  left out. Timestamps are milliseconds since the epoch. The field names carry a prefix
  per table, since several tables share column names.
\<close>

record app_row =
  a_id :: string
  a_user_id :: string
  a_name :: string
  a_domain :: string
  a_description :: "string option"

record api_key_row =
  k_id :: string
  k_app_id :: string
  k_user_id :: string
  k_key_hash :: string
  k_key_prefix :: string
  k_is_active :: bool
  k_expires_at :: "int option"
  k_last_used_at :: "int option"
  k_revoked_at :: "int option"

record event_metadata =
  browser :: "string option"
  os :: "string option"
  screenSize :: "string option"

record event_row =
  e_app_id :: string
  e_event :: string
  e_url :: string
  e_referrer :: "string option"
  e_device :: "string option"
  e_ip_address :: "string option"
  e_user_agent :: "string option"
  e_browser :: "string option"
  e_os :: "string option"
  e_screen_size :: "string option"
  e_metadata :: "event_metadata option"
  e_timestamp :: int

record database =
  apps :: "app_row list"
  api_keys :: "api_key_row list"
  analytics_events :: "event_row list"

text \<open>
  \<^verbatim>\<open>.single()\<close> of the Supabase client: the row when the query selects exactly one, an
  error (and \<^verbatim>\<open>data = null\<close>) otherwise.
\<close>

definition single :: "'a list \<Rightarrow> 'a option" where
  "single rows = (case rows of [r] \<Rightarrow> Some r | _ \<Rightarrow> None)"

section \<open>analytics-collect: the ingestion handler\<close>

text \<open>The request body, \<^verbatim>\<open>interface AnalyticsEvent\<close>; an absent field is \<open>None\<close>.\<close>

record analytics_event =
  event :: "string option"
  url :: "string option"
  referrer :: "string option"
  device :: "string option"
  ipAddress :: "string option"
  timestamp :: "string option"
  metadata :: "event_metadata option"

text \<open>
  What the handler reads of the request: whether the method is OPTIONS, the headers
  \<^verbatim>\<open>x-api-key\<close> and \<^verbatim>\<open>user-agent\<close>, and the body, \<open>None\<close> when \<^verbatim>\<open>req.json()\<close> throws.
\<close>

record collect_request =
  c_is_options :: bool
  x_api_key :: "string option"
  user_agent :: "string option"
  c_body :: "analytics_event option"

text \<open>
  What the handler reads of its surroundings: the four clock readings it takes, in
  \<^verbatim>\<open>checkRateLimit\<close>, in the expiry test, in the inserted row and in the
  \<^verbatim>\<open>last_used_at\<close> update, and whether the store refuses the insert.
\<close>

record collect_env =
  now_rate_limit :: int
  now_expiry :: int
  now_insert :: int
  now_last_used :: int
  insert_fails :: bool

record server_state =
  rateLimitMap :: rate_limit_map
  db :: database

text \<open>
  Lines 87 to 113, the key checks: the lookup by hash with \<^verbatim>\<open>.single()\<close>, then the
  active flag, then the expiry. The clock reading is that of \<^verbatim>\<open>new Date()\<close> in the
  expiry test.
\<close>

definition verify_api_key :: "int \<Rightarrow> string \<Rightarrow> api_key_row list \<Rightarrow> failure + api_key_row" where
  "verify_api_key now keyHash keys =
     (case single (filter (\<lambda>k. k_key_hash k = keyHash) keys) of
        None \<Rightarrow> Inl InvalidCredential
      | Some apiKeyRecord \<Rightarrow>
          if \<not> k_is_active apiKeyRecord then Inl Revoked
          else (case k_expires_at apiKeyRecord of
                  None \<Rightarrow> Inr apiKeyRecord
                | Some expires_at \<Rightarrow>
                    if expires_at < now then Inl Expired else Inr apiKeyRecord))"

text \<open>
  The \<^verbatim>\<open>timestamp\<close> expression of the inserted row:
  \<^verbatim>\<open>eventData.timestamp ? new Date(eventData.timestamp).toISOString() : new Date().toISOString()\<close>.
  A non-empty string is parsed; on an Invalid Date \<^verbatim>\<open>toISOString()\<close> throws, which the
  handler's \<^verbatim>\<open>catch\<close> turns into the 500 response.
\<close>

definition event_timestamp :: "date_parser \<Rightarrow> int \<Rightarrow> string option \<Rightarrow> failure + int" where
  "event_timestamp parseDate now ts =
     (case ts of
        None \<Rightarrow> Inr now
      | Some s \<Rightarrow>
          if s = [] then Inr now
          else (case parseDate s of None \<Rightarrow> Inl InternalError | Some t \<Rightarrow> Inr t))"

text \<open>The row passed to \<^verbatim>\<open>.insert\<close>, lines 130 to 143.\<close>

definition new_event_row ::
  "string \<Rightarrow> string \<Rightarrow> string \<Rightarrow> string option \<Rightarrow> analytics_event \<Rightarrow> int \<Rightarrow> event_row" where
  "new_event_row app_id ev u ua eventData ts =
     \<lparr>e_app_id = app_id,
      e_event = ev,
      e_url = u,
      e_referrer = or_null (referrer eventData),
      e_device = or_null (device eventData),
      e_ip_address = or_null (ipAddress eventData),
      e_user_agent = or_null ua,
      e_browser = or_null (case metadata eventData of None \<Rightarrow> None | Some md \<Rightarrow> browser md),
      e_os = or_null (case metadata eventData of None \<Rightarrow> None | Some md \<Rightarrow> os md),
      e_screen_size = or_null (case metadata eventData of None \<Rightarrow> None | Some md \<Rightarrow> screenSize md),
      e_metadata = metadata eventData,
      e_timestamp = ts\<rparr>"

text \<open>
  Lines 115 to 164, reached once the key is verified: parse the body, require
  \<^verbatim>\<open>event\<close> and \<^verbatim>\<open>url\<close>, insert the row, update \<^verbatim>\<open>last_used_at\<close> of the key
  (its result is not looked at) and acknowledge.
\<close>

definition store_event ::
  "date_parser \<Rightarrow> collect_env \<Rightarrow> collect_request \<Rightarrow> api_key_row \<Rightarrow> database
     \<Rightarrow> string response \<times> database" where
  "store_event parseDate env req apiKeyRecord d =
     (case c_body req of
        None \<Rightarrow> (Rejected InternalError, d)
      | Some eventData \<Rightarrow>
          (case (event eventData, url eventData) of
             (Some ev, Some u) \<Rightarrow>
               if ev = [] \<or> u = [] then (Rejected InvalidPayload, d)
               else (case event_timestamp parseDate (now_insert env) (timestamp eventData) of
                       Inl e \<Rightarrow> (Rejected e, d)
                     | Inr ts \<Rightarrow>
                         if insert_fails env then (Rejected StorageFailure, d)
                         else (OK ''Event collected successfully'',
                               d\<lparr>analytics_events :=
                                    analytics_events d
                                      @ [new_event_row (k_app_id apiKeyRecord) ev u (user_agent req) eventData ts],
                                  api_keys :=
                                    map (\<lambda>k. if k_id k = k_id apiKeyRecord
                                              then k\<lparr>k_last_used_at := Some (now_last_used env)\<rparr> else k)
                                      (api_keys d)\<rparr>))
           | _ \<Rightarrow> (Rejected InvalidPayload, d)))"

text \<open>
  The handler passed to \<^verbatim>\<open>Deno.serve\<close>. The order is that of the source: the header
  test, the hash, the rate limiter on the hash, and only then the lookup of the key.
\<close>

definition collect ::
  "date_parser \<Rightarrow> collect_env \<Rightarrow> collect_request \<Rightarrow> server_state \<Rightarrow> string response \<times> server_state" where
  "collect parseDate env req st =
     (if c_is_options req then (Preflight, st)
      else case x_api_key req of
        None \<Rightarrow> (Rejected MissingCredential, st)
      | Some apiKey \<Rightarrow>
          if apiKey = [] then (Rejected MissingCredential, st)
          else
            let keyHash = hashApiKey apiKey;
                admitted = checkRateLimit (now_rate_limit env) keyHash (rateLimitMap st);
                st1 = st\<lparr>rateLimitMap := snd admitted\<rparr>
            in if \<not> fst admitted then (Rejected RateLimited, st1)
               else (case verify_api_key (now_expiry env) keyHash (api_keys (db st1)) of
                       Inl e \<Rightarrow> (Rejected e, st1)
                     | Inr apiKeyRecord \<Rightarrow>
                         let stored = store_event parseDate env req apiKeyRecord (db st1)
                         in (fst stored, st1\<lparr>db := snd stored\<rparr>)))"

text \<open>Requests served one after the other, each with its own surroundings.\<close>

fun collect_all ::
  "date_parser \<Rightarrow> (collect_env \<times> collect_request) list \<Rightarrow> server_state
     \<Rightarrow> string response list \<times> server_state" where
  "collect_all parseDate [] st = ([], st)"
| "collect_all parseDate ((env, req) # rest) st =
     (let served = collect parseDate env req st;
          others = collect_all parseDate rest (snd served)
      in (fst served # fst others, snd others))"

section \<open>analytics-event-summary: the aggregation handler\<close>

text \<open>
  \<^verbatim>\<open>deviceData\<close> is a plain object, \<^verbatim>\<open>{}\<close>, used as a dictionary, so reading a key
  that the object does not own falls through to \<^verbatim>\<open>Object.prototype\<close>. A value is a
  number or something else: an inherited function or object, or the string that
  \<^verbatim>\<open>+ 1\<close> makes of it.
\<close>

datatype jsval = JNumber nat | JOther

text \<open>The property names of \<^verbatim>\<open>Object.prototype\<close> (ECMAScript, with its Annex B).\<close>

definition Object_prototype_keys :: "string list" where
  "Object_prototype_keys =
     [''constructor'', ''hasOwnProperty'', ''isPrototypeOf'', ''propertyIsEnumerable'',
      ''toLocaleString'', ''toString'', ''valueOf'', ''__proto__'',
      ''__defineGetter__'', ''__defineSetter__'', ''__lookupGetter__'', ''__lookupSetter__'']"

definition get_prop :: "(string \<rightharpoonup> jsval) \<Rightarrow> string \<Rightarrow> jsval option" where
  "get_prop obj k =
     (case obj k of
        Some v \<Rightarrow> Some v
      | None \<Rightarrow> if k \<in> set Object_prototype_keys then Some JOther else None)"

text \<open>
  Assignment creates or overwrites an own property, except for \<^verbatim>\<open>__proto__\<close>, whose
  inherited setter ignores a value that is not an object.
\<close>

definition set_prop :: "(string \<rightharpoonup> jsval) \<Rightarrow> string \<Rightarrow> jsval \<Rightarrow> (string \<rightharpoonup> jsval)" where
  "set_prop obj k v = (if k = ''__proto__'' then obj else obj(k \<mapsto> v))"

text \<open>The expression \<^verbatim>\<open>(v || 0) + 1\<close>.\<close>

definition or_zero_plus_one :: "jsval option \<Rightarrow> jsval" where
  "or_zero_plus_one v =
     (case v of
        None \<Rightarrow> JNumber 1
      | Some (JNumber n) \<Rightarrow> JNumber (if n = 0 then 1 else n + 1)
      | Some JOther \<Rightarrow> JOther)"

text \<open>The body of the \<^verbatim>\<open>forEach\<close> of lines 126 to 130, and the loop.\<close>

definition add_device :: "(string \<rightharpoonup> jsval) \<Rightarrow> event_row \<Rightarrow> (string \<rightharpoonup> jsval)" where
  "add_device obj e =
     (case e_device e of
        None \<Rightarrow> obj
      | Some d \<Rightarrow> if d = [] then obj else set_prop obj d (or_zero_plus_one (get_prop obj d)))"

definition device_histogram :: "event_row list \<Rightarrow> (string \<rightharpoonup> jsval)" where
  "device_histogram events = foldl add_device Map.empty events"

text \<open>\<^verbatim>\<open>new Set(events?.map(e => e.ip_address).filter(Boolean))\<close>\<close>

definition uniqueIps :: "event_row list \<Rightarrow> string option set" where
  "uniqueIps events = set (filter truthy (map e_ip_address events))"

record summary =
  s_event :: string
  s_count :: nat
  uniqueUsers :: nat
  deviceData :: "string \<rightharpoonup> jsval"

text \<open>Lines 120 to 141: the statistics over the rows the query returned.\<close>

definition summary_statistics :: "string \<Rightarrow> event_row list \<Rightarrow> summary" where
  "summary_statistics ev events =
     \<lparr>s_event = ev,
      s_count = length events,
      uniqueUsers = card (uniqueIps events),
      deviceData = device_histogram events\<rparr>"

text \<open>
  The specification's wording of \<open>uniqueUsers\<close>, for comparison with the code: the
  cardinality of the set of distinct non-null IP-address values among the events.
\<close>

definition spec_uniqueUsers :: "event_row list \<Rightarrow> nat" where
  "spec_uniqueUsers events = card (Option.these (set (map e_ip_address events)))"

record summary_request =
  s_is_options :: bool
  s_authorization :: "string option"
  q_event :: "string option"
  q_startDate :: "string option"
  q_endDate :: "string option"
  q_app_id :: "string option"

text \<open>
  The surroundings: the user that \<^verbatim>\<open>supabase.auth.getUser()\<close> finds for the bearer
  token, if any, and whether the store fails the events query.
\<close>

record summary_env =
  s_user :: "string option"
  query_fails :: bool

text \<open>
  The rows of \<^verbatim>\<open>analytics_events\<close> that the row-level security policy of the migration
  lets the user select: those of an app the user owns.
\<close>

definition visible_events :: "string \<Rightarrow> database \<Rightarrow> event_row list" where
  "visible_events uid d =
     filter (\<lambda>e. \<exists>a \<in> set (apps d). a_id a = e_app_id e \<and> a_user_id a = uid) (analytics_events d)"

text \<open>
  Lines 63 to 97, the scoping. With an \<^verbatim>\<open>app_id\<close> the app must be found among the
  user's own, else 404; without one the user's apps are listed, and with none of them the
  zero-valued summary is returned at once. Otherwise the result is the scoped rows.
\<close>

definition scope_events :: "string \<Rightarrow> string \<Rightarrow> string option \<Rightarrow> database \<Rightarrow> summary response + event_row list" where
  "scope_events uid ev appId d =
     (if truthy appId then
        (case single (filter (\<lambda>a. Some (a_id a) = appId \<and> a_user_id a = uid) (apps d)) of
           None \<Rightarrow> Inl (Rejected NotFound)
         | Some app \<Rightarrow> Inr (filter (\<lambda>e. Some (e_app_id e) = appId) (visible_events uid d)))
      else
        (let owned = filter (\<lambda>a. a_user_id a = uid) (apps d)
         in if owned = []
            then Inl (OK \<lparr>s_event = ev, s_count = 0, uniqueUsers = 0, deviceData = Map.empty\<rparr>)
            else Inr (filter (\<lambda>e. e_app_id e \<in> set (map a_id owned)) (visible_events uid d))))"

text \<open>
  A bound of the query, \<^verbatim>\<open>new Date(startDate).toISOString()\<close>: absent or empty gives no
  bound, an Invalid Date throws.
\<close>

definition date_bound :: "date_parser \<Rightarrow> string option \<Rightarrow> failure + int option" where
  "date_bound parseDate s =
     (case s of
        None \<Rightarrow> Inr None
      | Some x \<Rightarrow>
          if x = [] then Inr None
          else (case parseDate x of None \<Rightarrow> Inl InternalError | Some t \<Rightarrow> Inr (Some t)))"

definition event_summary ::
  "date_parser \<Rightarrow> summary_env \<Rightarrow> summary_request \<Rightarrow> database \<Rightarrow> summary response" where
  "event_summary parseDate env req d =
     (if s_is_options req then Preflight
      else if \<not> truthy (s_authorization req) then Rejected MissingAuthorization
      else case s_user env of
        None \<Rightarrow> Rejected Unauthorized
      | Some uid \<Rightarrow>
          (case q_event req of
             None \<Rightarrow> Rejected (Failure 400 ''Event parameter is required'')
           | Some ev \<Rightarrow>
               if ev = [] then Rejected (Failure 400 ''Event parameter is required'')
               else (case scope_events uid ev (q_app_id req) d of
                       Inl r \<Rightarrow> r
                     | Inr scoped \<Rightarrow>
                         (case date_bound parseDate (q_startDate req) of
                            Inl e \<Rightarrow> Rejected e
                          | Inr lo \<Rightarrow>
                              (case date_bound parseDate (q_endDate req) of
                                 Inl e \<Rightarrow> Rejected e
                               | Inr hi \<Rightarrow>
                                   if query_fails env
                                   then Rejected (Failure 500 ''Failed to fetch analytics data'')
                                   else OK (summary_statistics ev
                                          (filter (\<lambda>e. e_event e = ev
                                                     \<and> (case lo of None \<Rightarrow> True | Some t \<Rightarrow> t \<le> e_timestamp e)
                                                     \<and> (case hi of None \<Rightarrow> True | Some t \<Rightarrow> e_timestamp e \<le> t))
                                             scoped)))))))"

section \<open>auth-register and auth-revoke: the key lifecycle\<close>

record register_body =
  name :: "string option"
  domain :: "string option"
  description :: "string option"

record register_request =
  g_is_options :: bool
  g_authorization :: "string option"
  g_body :: "register_body option"

text \<open>
  The surroundings of a registration: the user behind the bearer token, the identifiers
  that the store generates for the two new rows, the value of \<^verbatim>\<open>crypto.randomUUID()\<close>,
  and whether the store fails an insert for a reason of its own.
\<close>

record register_env =
  g_user :: "string option"
  new_app_id :: string
  new_key_id :: string
  randomUUID :: string
  app_insert_fails :: bool
  key_insert_fails :: bool

record registered =
  reg_app :: app_row
  reg_apiKey :: string

text \<open>\<^verbatim>\<open>`ak_${crypto.randomUUID().replace(/-/g, '')}`\<close>\<close>

definition generate_api_key :: "string \<Rightarrow> string" where
  "generate_api_key uuid = ''ak_'' @ filter (\<lambda>c. c \<noteq> CHR ''-'') uuid"

text \<open>
  The handler of \<^verbatim>\<open>auth-register\<close>. The store refuses a row whose primary key is taken,
  and a key whose hash is taken (\<^verbatim>\<open>key_hash TEXT NOT NULL UNIQUE\<close>). When the insert of
  the key fails the app inserted before it stays.
\<close>

definition register ::
  "register_env \<Rightarrow> register_request \<Rightarrow> database \<Rightarrow> registered response \<times> database" where
  "register env req d =
     (if g_is_options req then (Preflight, d)
      else if \<not> truthy (g_authorization req) then (Rejected MissingAuthorization, d)
      else case g_user env of
        None \<Rightarrow> (Rejected Unauthorized, d)
      | Some uid \<Rightarrow>
          (case g_body req of
             None \<Rightarrow> (Rejected InternalError, d)
           | Some b \<Rightarrow>
               (case (name b, domain b) of
                  (Some n, Some dm) \<Rightarrow>
                    if n = [] \<or> dm = [] then (Rejected (Failure 400 ''Name and domain are required''), d)
                    else if app_insert_fails env \<or> new_app_id env \<in> set (map a_id (apps d))
                    then (Rejected (Failure 500 ''Failed to create app''), d)
                    else
                      let app = \<lparr>a_id = new_app_id env, a_user_id = uid, a_name = n, a_domain = dm,
                                 a_description = or_null (description b)\<rparr>;
                          d1 = d\<lparr>apps := apps d @ [app]\<rparr>;
                          key = generate_api_key (randomUUID env);
                          keyHash = hashApiKey key;
                          keyPrefix = take 12 key
                      in if key_insert_fails env \<or> new_key_id env \<in> set (map k_id (api_keys d1))
                            \<or> keyHash \<in> set (map k_key_hash (api_keys d1))
                         then (Rejected (Failure 500 ''Failed to create API key''), d1)
                         else (OK \<lparr>reg_app = app, reg_apiKey = key\<rparr>,
                               d1\<lparr>api_keys := api_keys d1 @
                                    [\<lparr>k_id = new_key_id env, k_app_id = a_id app, k_user_id = uid,
                                      k_key_hash = keyHash, k_key_prefix = keyPrefix, k_is_active = True,
                                      k_expires_at = None, k_last_used_at = None, k_revoked_at = None\<rparr>]\<rparr>)
                | _ \<Rightarrow> (Rejected (Failure 400 ''Name and domain are required''), d))))"

record revoke_body =
  api_key_id :: "string option"

record revoke_request =
  r_is_options :: bool
  r_authorization :: "string option"
  r_body :: "revoke_body option"

record revoke_env =
  r_user :: "string option"
  now_revoked :: int
  update_fails :: bool

text \<open>
  The handler of \<^verbatim>\<open>auth-revoke\<close>. The update runs on the rows that match both
  \<^verbatim>\<open>.eq('id', api_key_id)\<close> and \<^verbatim>\<open>.eq('user_id', user.id)\<close>; the handler looks at the
  error of the update only, not at the number of rows it changed.
\<close>

definition revoke ::
  "revoke_env \<Rightarrow> revoke_request \<Rightarrow> database \<Rightarrow> string response \<times> database" where
  "revoke env req d =
     (if r_is_options req then (Preflight, d)
      else if \<not> truthy (r_authorization req) then (Rejected MissingAuthorization, d)
      else case r_user env of
        None \<Rightarrow> (Rejected Unauthorized, d)
      | Some uid \<Rightarrow>
          (case r_body req of
             None \<Rightarrow> (Rejected InternalError, d)
           | Some b \<Rightarrow>
               (case api_key_id b of
                  None \<Rightarrow> (Rejected (Failure 400 ''api_key_id is required''), d)
                | Some kid \<Rightarrow>
                    if kid = [] then (Rejected (Failure 400 ''api_key_id is required''), d)
                    else if update_fails env then (Rejected (Failure 500 ''Failed to revoke API key''), d)
                    else (OK ''API key revoked successfully'',
                          d\<lparr>api_keys :=
                               map (\<lambda>k. if k_id k = kid \<and> k_user_id k = uid
                                         then k\<lparr>k_is_active := False, k_revoked_at := Some (now_revoked env)\<rparr>
                                         else k)
                                 (api_keys d)\<rparr>))))"

section \<open>Properties of the rate limiter\<close>

lemma checkRateLimit_other:
  "k' \<noteq> k \<Longrightarrow> snd (checkRateLimit t k' m) k = m k"
  by (simp add: checkRateLimit_def split: option.splits)

lemma fst_admit_all_Cons [simp]:
  "fst (admit_all ((t, k) # reqs) m)
     = fst (checkRateLimit t k m) # fst (admit_all reqs (snd (checkRateLimit t k m)))"
  by (simp split: prod.splits)

lemma snd_admit_all_Cons [simp]:
  "snd (admit_all ((t, k) # reqs) m) = snd (admit_all reqs (snd (checkRateLimit t k m)))"
  by (simp split: prod.splits)

declare admit_all.simps(2) [simp del]

lemma admit_all_length: "length (fst (admit_all reqs m)) = length reqs"
  by (induction reqs arbitrary: m) auto

lemma requests_for_Cons:
  "requests_for k (Suc n) (q # reqs) = (if snd q = k then Suc (requests_for k n reqs) else requests_for k n reqs)"
  by (simp add: requests_for_def)

lemma requests_for_0 [simp]: "requests_for k 0 reqs = 0"
  by (simp add: requests_for_def)

lemma requests_for_pos:
  "i < length reqs \<Longrightarrow> snd (reqs ! i) = k \<Longrightarrow> 0 < requests_for k (Suc i) reqs"
proof -
  assume "i < length reqs" "snd (reqs ! i) = k"
  then have "reqs ! i \<in> set (filter (\<lambda>q. snd q = k) (take (Suc i) reqs))"
    by (auto simp: in_set_conv_nth intro!: exI [of _ i])
  then show ?thesis
    unfolding requests_for_def by (metis length_pos_if_in_set)
qed

lemma admit_all_in_window:
  assumes "m k = Some w"
    and "\<forall>q\<in>set reqs. snd q = k \<longrightarrow> fst q \<le> resetAt w"
    and "i < length reqs" and "snd (reqs ! i) = k"
  shows "fst (admit_all reqs m) ! i \<longleftrightarrow> count w + requests_for k (Suc i) reqs \<le> RATE_LIMIT"
  using assms
proof (induction reqs arbitrary: m w i)
  case Nil
  then show ?case by simp
next
  case (Cons q reqs)
  obtain t k' where q: "q = (t, k')" by (cases q)
  obtain b m' where step: "checkRateLimit t k' m = (b, m')" by (cases "checkRateLimit t k' m")
  have res: "fst (admit_all (q # reqs) m) = b # fst (admit_all reqs m')"
    by (simp add: q step)
  show ?case
  proof (cases "k' = k")
    case False
    then have mk: "m' k = Some w"
      using checkRateLimit_other [of k' k t m] step Cons.prems(1) by simp
    from False Cons.prems(4) q obtain j where i: "i = Suc j"
      by (cases i) auto
    have "fst (admit_all reqs m') ! j \<longleftrightarrow> count w + requests_for k (Suc j) reqs \<le> RATE_LIMIT"
      using Cons.IH [of m' w j] mk Cons.prems i by simp
    then show ?thesis
      using False by (simp add: step i q requests_for_Cons)
  next
    case True
    then have tle: "t \<le> resetAt w"
      using Cons.prems(2) q by simp
    have stepk: "checkRateLimit t k m = (b, m')"
      using step True by simp
    show ?thesis
    proof (cases "count w \<ge> RATE_LIMIT")
      case full: True
      then have bm: "b = False" "m' = m"
        using step Cons.prems(1) True tle by (auto simp: checkRateLimit_def)
      show ?thesis
      proof (cases i)
        case 0
        then show ?thesis using full bm True by (simp add: stepk q requests_for_Cons)
      next
        case (Suc j)
        have "fst (admit_all reqs m') ! j \<longleftrightarrow> count w + requests_for k (Suc j) reqs \<le> RATE_LIMIT"
          using Cons.IH [of m' w j] Cons.prems Suc bm by simp
        moreover have "0 < requests_for k (Suc j) reqs"
          using requests_for_pos [of j reqs k] Cons.prems Suc by simp
        ultimately show ?thesis
          using full True by (simp add: stepk Suc q requests_for_Cons)
      qed
    next
      case room: False
      define w' where "w' = w\<lparr>count := count w + 1\<rparr>"
      have bm: "b = True" "m' k = Some w'"
        using step Cons.prems(1) True tle room by (auto simp: checkRateLimit_def w'_def)
      show ?thesis
      proof (cases i)
        case 0
        then show ?thesis using room bm True by (simp add: stepk q requests_for_Cons)
      next
        case (Suc j)
        have "fst (admit_all reqs m') ! j \<longleftrightarrow> count w' + requests_for k (Suc j) reqs \<le> RATE_LIMIT"
          using Cons.IH [of m' w' j] bm(2) Cons.prems Suc by (simp add: w'_def)
        then show ?thesis
          using True by (simp add: stepk Suc q requests_for_Cons w'_def)
      qed
    qed
  qed
qed

lemma checkRateLimit_reset:
  assumes "m k = None \<or> (\<exists>w. m k = Some w \<and> resetAt w < t0)"
  shows "checkRateLimit t0 k m = (True, m(k \<mapsto> \<lparr>count = 1, resetAt = t0 + RATE_LIMIT_WINDOW\<rparr>))"
  using assms by (auto simp: checkRateLimit_def)

text \<open>
  Claim C2. A request for key \<open>k\<close> that finds no window, or a window whose reset instant
  lies strictly before the clock reading \<open>t0\<close>, is admitted and sets the window to count 1
  and reset instant \<open>t0 + 60000\<close>. Of the requests that follow, in any interleaving with
  requests for other keys, those for \<open>k\<close> that arrive no later than that reset instant are
  admitted exactly while the number of requests for \<open>k\<close> in the window, the opening one
  included, is at most 100: the first 100 are admitted and the 101st is rejected.
\<close>

theorem rate_limit_window_capacity:
  assumes "m k = None \<or> (\<exists>w. m k = Some w \<and> resetAt w < t0)"
    and "\<forall>q\<in>set reqs. snd q = k \<longrightarrow> fst q \<le> t0 + RATE_LIMIT_WINDOW"
  shows "fst (checkRateLimit t0 k m) \<and>
         snd (checkRateLimit t0 k m) k = Some \<lparr>count = 1, resetAt = t0 + RATE_LIMIT_WINDOW\<rparr> \<and>
         (\<forall>i < length reqs. snd (reqs ! i) = k \<longrightarrow>
            (fst (admit_all ((t0, k) # reqs) m) ! Suc i
               \<longleftrightarrow> requests_for k (Suc (Suc i)) ((t0, k) # reqs) \<le> 100))"
proof -
  let ?w = "\<lparr>count = 1, resetAt = t0 + RATE_LIMIT_WINDOW\<rparr>"
  let ?m = "m(k \<mapsto> ?w)"
  have first: "checkRateLimit t0 k m = (True, ?m)"
    using assms(1) by (rule checkRateLimit_reset)
  have later: "fst (admit_all ((t0, k) # reqs) m) ! Suc i
        \<longleftrightarrow> requests_for k (Suc (Suc i)) ((t0, k) # reqs) \<le> 100"
    if "i < length reqs" "snd (reqs ! i) = k" for i
  proof -
    have "fst (admit_all reqs ?m) ! i \<longleftrightarrow> count ?w + requests_for k (Suc i) reqs \<le> RATE_LIMIT"
      using admit_all_in_window [of ?m k ?w reqs i] assms(2) that by simp
    then show ?thesis
      by (simp add: first requests_for_Cons RATE_LIMIT_def)
  qed
  show ?thesis using first later by simp
qed

theorem rate_limit_window_capacity_witness:
  "fst (checkRateLimit 0 ''k'' Map.empty) \<and>
   snd (checkRateLimit 0 ''k'' Map.empty) ''k'' = Some \<lparr>count = 1, resetAt = 60000\<rparr> \<and>
   fst (admit_all ((0, ''k'') # replicate 100 (1, ''k'')) Map.empty) ! 99 \<and>
   \<not> fst (admit_all ((0, ''k'') # replicate 100 (1, ''k'')) Map.empty) ! 100"
proof -
  have h: "\<forall>q\<in>set (replicate 100 (1::int, ''k'')). snd q = ''k'' \<longrightarrow> fst q \<le> 0 + RATE_LIMIT_WINDOW"
    by (simp add: RATE_LIMIT_WINDOW_def)
  have r: "requests_for ''k'' n ((0, ''k'') # replicate 100 (1, ''k'')) = min n 101" for n
    by (cases n) (simp_all add: requests_for_def)
  show ?thesis
    using rate_limit_window_capacity [of Map.empty "''k''" 0 "replicate 100 (1, ''k'')", OF _ h]
    by (simp add: r RATE_LIMIT_WINDOW_def)
qed


lemma checkRateLimit_bounds:
  assumes "\<forall>k w. m k = Some w \<longrightarrow> 1 \<le> count w \<and> count w \<le> RATE_LIMIT"
    and "snd (checkRateLimit t k m) k' = Some w'"
  shows "1 \<le> count w' \<and> count w' \<le> RATE_LIMIT"
  using assms
  by (auto simp: checkRateLimit_def RATE_LIMIT_def split: option.splits if_splits)

lemma admit_all_bounds:
  assumes "\<forall>k w. m k = Some w \<longrightarrow> 1 \<le> count w \<and> count w \<le> RATE_LIMIT"
  shows "\<forall>k w. snd (admit_all reqs m) k = Some w \<longrightarrow> 1 \<le> count w \<and> count w \<le> RATE_LIMIT"
  using assms
proof (induction reqs arbitrary: m)
  case Nil
  then show ?case by simp
next
  case (Cons q reqs)
  obtain t k where q: "q = (t, k)" by (cases q)
  have "\<forall>k' w'. snd (checkRateLimit t k m) k' = Some w' \<longrightarrow> 1 \<le> count w' \<and> count w' \<le> RATE_LIMIT"
    using checkRateLimit_bounds [OF Cons.prems] by blast
  from Cons.IH [OF this] show ?case by (simp add: q)
qed

lemma checkRateLimit_rejected:
  assumes "\<not> fst (checkRateLimit t k m)"
  shows "snd (checkRateLimit t k m) = m \<and> (\<exists>w. m k = Some w \<and> RATE_LIMIT \<le> count w \<and> t \<le> resetAt w)"
  using assms by (auto simp: checkRateLimit_def split: option.splits if_splits)

text \<open>
  Claim C9. In every state \<open>m\<close> of the map reached from the empty map by a sequence of
  admission requests, each entry has a count between 1 and 100. A rejected call returns the
  map unchanged, and after it every request for the same key whose clock reading is not
  past the window's reset instant is rejected as well, whatever requests for other keys
  come in between.
\<close>

theorem rate_limit_state_invariant:
  assumes "m = snd (admit_all reqs Map.empty)"
  shows "(m k = Some w \<longrightarrow> 1 \<le> count w \<and> count w \<le> RATE_LIMIT) \<and>
         (\<not> fst (checkRateLimit t k m) \<longrightarrow>
            snd (checkRateLimit t k m) = m \<and>
            (m k = Some w \<and> (\<forall>q\<in>set later. snd q = k \<longrightarrow> fst q \<le> resetAt w)
               \<and> i < length later \<and> snd (later ! i) = k
             \<longrightarrow> \<not> fst (admit_all later (snd (checkRateLimit t k m))) ! i))"
proof -
  have bounds: "m k = Some w \<longrightarrow> 1 \<le> count w \<and> count w \<le> RATE_LIMIT"
    using admit_all_bounds [of Map.empty reqs] assms by simp
  have rej: "snd (checkRateLimit t k m) = m \<and>
            (m k = Some w \<and> (\<forall>q\<in>set later. snd q = k \<longrightarrow> fst q \<le> resetAt w)
               \<and> i < length later \<and> snd (later ! i) = k
             \<longrightarrow> \<not> fst (admit_all later (snd (checkRateLimit t k m))) ! i)"
    if r: "\<not> fst (checkRateLimit t k m)"
  proof -
    from checkRateLimit_rejected [OF r]
    obtain w0 where same: "snd (checkRateLimit t k m) = m"
      and w0: "m k = Some w0" "RATE_LIMIT \<le> count w0"
      by blast
    have "\<not> fst (admit_all later m) ! i"
      if h: "m k = Some w" "\<forall>q\<in>set later. snd q = k \<longrightarrow> fst q \<le> resetAt w"
        "i < length later" "snd (later ! i) = k"
    proof -
      have "fst (admit_all later m) ! i \<longleftrightarrow> count w + requests_for k (Suc i) later \<le> RATE_LIMIT"
        using admit_all_in_window [of m k w later i] h by simp
      moreover have "0 < requests_for k (Suc i) later"
        using requests_for_pos h by simp
      moreover have "RATE_LIMIT \<le> count w"
        using w0 h(1) by simp
      ultimately show ?thesis by simp
    qed
    then show ?thesis using same by simp
  qed
  show ?thesis using bounds rej by blast
qed

lemma admit_replicate_100:
  "snd (admit_all (replicate 100 (0, ''k'')) Map.empty) = [''k'' \<mapsto> \<lparr>count = 100, resetAt = 60000\<rparr>]"
  by (simp add: eval_nat_numeral checkRateLimit_def RATE_LIMIT_def RATE_LIMIT_WINDOW_def)

theorem rate_limit_state_invariant_witness:
  "snd (admit_all (replicate 100 (0, ''k'')) Map.empty) ''k'' = Some \<lparr>count = 100, resetAt = 60000\<rparr> \<and>
   \<not> fst (checkRateLimit 5 ''k'' (snd (admit_all (replicate 100 (0, ''k'')) Map.empty))) \<and>
   snd (checkRateLimit 5 ''k'' (snd (admit_all (replicate 100 (0, ''k'')) Map.empty)))
     = snd (admit_all (replicate 100 (0, ''k'')) Map.empty) \<and>
   \<not> fst (admit_all [(6, ''other''), (7, ''k'')]
           (snd (checkRateLimit 5 ''k'' (snd (admit_all (replicate 100 (0, ''k'')) Map.empty))))) ! 1"
proof -
  define m where "m = snd (admit_all (replicate 100 (0, ''k'')) Map.empty)"
  define later where "later = [(6::int, ''other''), (7, ''k'')]"
  have mk: "m ''k'' = Some \<lparr>count = 100, resetAt = 60000\<rparr>"
    by (simp add: m_def admit_replicate_100)
  have rej: "\<not> fst (checkRateLimit 5 ''k'' m)"
    by (simp add: m_def admit_replicate_100 checkRateLimit_def RATE_LIMIT_def)
  have pre: "m ''k'' = Some \<lparr>count = 100, resetAt = 60000\<rparr> \<and>
      (\<forall>q\<in>set later. snd q = ''k'' \<longrightarrow> fst q \<le> resetAt \<lparr>count = 100, resetAt = 60000\<rparr>) \<and>
      1 < length later \<and> snd (later ! 1) = ''k''"
    using mk by (simp add: later_def)
  have "snd (checkRateLimit 5 ''k'' m) = m \<and>
        \<not> fst (admit_all later (snd (checkRateLimit 5 ''k'' m))) ! 1"
    using rate_limit_state_invariant [of m "replicate 100 (0, ''k'')" "''k''"
        "\<lparr>count = 100, resetAt = 60000\<rparr>" 5 later 1] rej pre m_def
    by blast
  then show ?thesis
    using mk rej unfolding m_def later_def by blast
qed

section \<open>The order of checks in analytics-collect\<close>

lemma store_event_failures:
  "fst (store_event parseDate env req r d) \<noteq> Rejected MissingCredential"
  "fst (store_event parseDate env req r d) \<noteq> Rejected RateLimited"
  "fst (store_event parseDate env req r d) \<noteq> Rejected InvalidCredential"
  "fst (store_event parseDate env req r d) \<noteq> Rejected Revoked"
  "fst (store_event parseDate env req r d) \<noteq> Rejected Expired"
  by (simp_all add: store_event_def event_timestamp_def
        split: option.splits sum.splits if_splits)

lemma verify_api_key_failures:
  "verify_api_key now h keys = Inl e \<Longrightarrow> e = InvalidCredential \<or> e = Revoked \<or> e = Expired"
  by (auto simp: verify_api_key_def split: option.splits if_splits)

lemma collect_unfold:
  assumes "\<not> c_is_options req" "x_api_key req = Some apiKey" "apiKey \<noteq> []"
  shows "fst (collect parseDate env req st) =
     (if \<not> fst (checkRateLimit (now_rate_limit env) (hashApiKey apiKey) (rateLimitMap st))
      then Rejected RateLimited
      else case verify_api_key (now_expiry env) (hashApiKey apiKey) (api_keys (db st)) of
             Inl e \<Rightarrow> Rejected e
           | Inr r \<Rightarrow> fst (store_event parseDate env req r (db st)))"
  using assms by (simp add: collect_def Let_def split: sum.splits)

lemma collect_missing:
  assumes "\<not> c_is_options req" "\<not> truthy (x_api_key req)"
  shows "collect parseDate env req st = (Rejected MissingCredential, st)"
  using assms by (auto simp: collect_def truthy_def split: option.splits)

lemma collect_unknown_key:
  assumes "\<not> c_is_options req" "x_api_key req = Some apiKey" "apiKey \<noteq> []"
    and "api_keys (db st) = []"
  shows "collect parseDate env req st =
     (if fst (checkRateLimit (now_rate_limit env) (hashApiKey apiKey) (rateLimitMap st))
      then Rejected InvalidCredential else Rejected RateLimited,
      st\<lparr>rateLimitMap := snd (checkRateLimit (now_rate_limit env) (hashApiKey apiKey) (rateLimitMap st))\<rparr>)"
  using assms by (simp add: collect_def Let_def verify_api_key_def single_def)

lemma collect_all_unknown_key:
  assumes "\<not> c_is_options req" "x_api_key req = Some apiKey" "apiKey \<noteq> []"
    and "api_keys (db st) = []"
  shows "collect_all parseDate (replicate n (env, req)) st =
     (map (\<lambda>b. if b then Rejected InvalidCredential else Rejected RateLimited)
        (fst (admit_all (replicate n (now_rate_limit env, hashApiKey apiKey)) (rateLimitMap st))),
      st\<lparr>rateLimitMap :=
           snd (admit_all (replicate n (now_rate_limit env, hashApiKey apiKey)) (rateLimitMap st))\<rparr>)"
  using assms(4)
proof (induction n arbitrary: st)
  case 0
  then show ?case by simp
next
  case (Suc n)
  let ?st1 = "st\<lparr>rateLimitMap := snd (checkRateLimit (now_rate_limit env) (hashApiKey apiKey) (rateLimitMap st))\<rparr>"
  have "api_keys (db ?st1) = []" using Suc.prems by simp
  from Suc.IH [OF this] collect_unknown_key [OF assms(1-3) Suc.prems, of parseDate env]
  show ?case by (simp add: Let_def)
qed

lemma admit_101st:
  "fst (admit_all (replicate 101 (t, k)) Map.empty) ! 0 \<and>
   \<not> fst (admit_all (replicate 101 (t, k)) Map.empty) ! 100"
proof -
  let ?w = "\<lparr>count = 1, resetAt = t + RATE_LIMIT_WINDOW\<rparr>"
  let ?m = "[k \<mapsto> ?w]"
  have split: "replicate 101 (t, k) = (t, k) # replicate 100 (t, k)"
    by (simp add: eval_nat_numeral)
  have first: "checkRateLimit t k Map.empty = (True, ?m)"
    by (simp add: checkRateLimit_def)
  have "fst (admit_all (replicate 100 (t, k)) ?m) ! 99
          \<longleftrightarrow> count ?w + requests_for k (Suc 99) (replicate 100 (t, k)) \<le> RATE_LIMIT"
    by (rule admit_all_in_window) (simp_all add: RATE_LIMIT_WINDOW_def)
  moreover have "requests_for k (Suc 99) (replicate 100 (t, k)) = 100"
    by (simp add: requests_for_def)
  ultimately have "\<not> fst (admit_all (replicate 100 (t, k)) ?m) ! 99"
    by (simp add: RATE_LIMIT_def)
  then show ?thesis
    unfolding split by (simp add: first)
qed

text \<open>
  Claim C1, as the code has it. The handler tests the header first, then asks the rate
  limiter about the hash of whatever credential was presented, and looks the key up only
  after admission. So, for a request that is not a preflight: it is answered
  MissingCredential exactly when the header is absent or empty; it is answered RateLimited
  exactly when a credential is present and the limiter denies its hash, whether or not a
  key with that hash exists; and it is answered InvalidCredential, Revoked or Expired
  exactly when the limiter admitted it and the key checks fail with that reason.
\<close>

theorem collect_check_order:
  assumes "\<not> c_is_options req"
  shows "(fst (collect parseDate env req st) = Rejected MissingCredential \<longleftrightarrow> \<not> truthy (x_api_key req)) \<and>
         (fst (collect parseDate env req st) = Rejected RateLimited \<longleftrightarrow>
            (\<exists>apiKey. x_api_key req = Some apiKey \<and> apiKey \<noteq> [] \<and>
               \<not> fst (checkRateLimit (now_rate_limit env) (hashApiKey apiKey) (rateLimitMap st)))) \<and>
         (\<forall>e \<in> {InvalidCredential, Revoked, Expired}.
            fst (collect parseDate env req st) = Rejected e \<longleftrightarrow>
            (\<exists>apiKey. x_api_key req = Some apiKey \<and> apiKey \<noteq> [] \<and>
               fst (checkRateLimit (now_rate_limit env) (hashApiKey apiKey) (rateLimitMap st)) \<and>
               verify_api_key (now_expiry env) (hashApiKey apiKey) (api_keys (db st)) = Inl e))"
proof (cases "truthy (x_api_key req)")
  case False
  then have "fst (collect parseDate env req st) = Rejected MissingCredential"
    using collect_missing [OF assms] by simp
  with False show ?thesis
    by (auto simp: truthy_def)
next
  case True
  then obtain apiKey where k: "x_api_key req = Some apiKey" "apiKey \<noteq> []"
    by (auto simp: truthy_def split: option.splits)
  note u = collect_unfold [OF assms k, of parseDate env st]
  show ?thesis
  proof (cases "fst (checkRateLimit (now_rate_limit env) (hashApiKey apiKey) (rateLimitMap st))")
    case False
    then show ?thesis using u k True by auto
  next
    case adm: True
    show ?thesis
    proof (cases "verify_api_key (now_expiry env) (hashApiKey apiKey) (api_keys (db st))")
      case (Inl e)
      then show ?thesis
        using u k True adm verify_api_key_failures [OF Inl] by auto
    next
      case (Inr r)
      then show ?thesis
        using u k True adm store_event_failures [of parseDate env req r "db st"] by auto
    qed
  qed
qed

theorem collect_check_order_witness:
  "\<not> c_is_options \<lparr>c_is_options = False, x_api_key = Some ''ak_unknown'', user_agent = None, c_body = None\<rparr> \<and>
   verify_api_key 7 (hashApiKey ''ak_unknown'') [] = Inl InvalidCredential \<and>
   fst (collect Map.empty
          \<lparr>now_rate_limit = 5, now_expiry = 7, now_insert = 8, now_last_used = 9, insert_fails = False\<rparr>
          \<lparr>c_is_options = False, x_api_key = Some ''ak_unknown'', user_agent = None, c_body = None\<rparr>
          \<lparr>rateLimitMap = [hashApiKey ''ak_unknown'' \<mapsto> \<lparr>count = 100, resetAt = 60000\<rparr>],
            db = \<lparr>apps = [], api_keys = [], analytics_events = []\<rparr>\<rparr>)
     = Rejected RateLimited"
  using collect_check_order
    [of "\<lparr>c_is_options = False, x_api_key = Some ''ak_unknown'', user_agent = None, c_body = None\<rparr>"
        Map.empty
        "\<lparr>now_rate_limit = 5, now_expiry = 7, now_insert = 8, now_last_used = 9, insert_fails = False\<rparr>"
        "\<lparr>rateLimitMap = [hashApiKey ''ak_unknown'' \<mapsto> \<lparr>count = 100, resetAt = 60000\<rparr>],
          db = \<lparr>apps = [], api_keys = [], analytics_events = []\<rparr>\<rparr>"]
  by (simp add: checkRateLimit_def RATE_LIMIT_def verify_api_key_def single_def)

text \<open>
  Claim C1, as stated, fails. On a store without any key, so that the credential is
  invalid, and an empty limiter, the same request is sent 101 times within one window: the
  first answer is InvalidCredential, the last is RateLimited.
\<close>

theorem invalid_credential_rate_limited:
  "fst (collect_all Map.empty
          (replicate 101
             (\<lparr>now_rate_limit = 0, now_expiry = 0, now_insert = 0, now_last_used = 0, insert_fails = False\<rparr>,
              \<lparr>c_is_options = False, x_api_key = Some ''ak_unknown'', user_agent = None, c_body = None\<rparr>))
          \<lparr>rateLimitMap = Map.empty, db = \<lparr>apps = [], api_keys = [], analytics_events = []\<rparr>\<rparr>) ! 0
     = Rejected InvalidCredential \<and>
   fst (collect_all Map.empty
          (replicate 101
             (\<lparr>now_rate_limit = 0, now_expiry = 0, now_insert = 0, now_last_used = 0, insert_fails = False\<rparr>,
              \<lparr>c_is_options = False, x_api_key = Some ''ak_unknown'', user_agent = None, c_body = None\<rparr>))
          \<lparr>rateLimitMap = Map.empty, db = \<lparr>apps = [], api_keys = [], analytics_events = []\<rparr>\<rparr>) ! 100
     = Rejected RateLimited"
proof -
  let ?env = "\<lparr>now_rate_limit = 0, now_expiry = 0, now_insert = 0, now_last_used = 0, insert_fails = False\<rparr>"
  let ?req = "\<lparr>c_is_options = False, x_api_key = Some ''ak_unknown'', user_agent = None, c_body = None\<rparr>"
  let ?st = "\<lparr>rateLimitMap = Map.empty, db = \<lparr>apps = [], api_keys = [], analytics_events = []\<rparr>\<rparr>"
  have run: "fst (collect_all Map.empty (replicate 101 (?env, ?req)) ?st) =
      map (\<lambda>b. if b then Rejected InvalidCredential else Rejected RateLimited)
        (fst (admit_all (replicate 101 (0, hashApiKey ''ak_unknown'')) Map.empty))"
    using collect_all_unknown_key [of ?req "''ak_unknown''" ?st Map.empty 101 ?env] by simp
  have len: "length (fst (admit_all (replicate 101 (0::int, hashApiKey ''ak_unknown'')) Map.empty)) = 101"
    by (simp add: admit_all_length)
  show ?thesis
    unfolding run using admit_101st [of 0 "hashApiKey ''ak_unknown''"] len by simp
qed

section \<open>The key checks of analytics-collect\<close>

lemma verify_api_key_match:
  assumes "filter (\<lambda>k. k_key_hash k = keyHash) keys = [r]"
  shows "verify_api_key now keyHash keys =
     (if \<not> k_is_active r then Inl Revoked
      else if \<exists>t. k_expires_at r = Some t \<and> t < now then Inl Expired
      else Inr r)"
  using assms by (auto simp: verify_api_key_def single_def split: option.splits)

text \<open>
  Claim C5. When exactly one stored key has the hash of the presented credential, the key
  checks fail with Revoked if its active flag is false, whatever its expiry; they fail with
  Expired if it is active and its expiry is set and strictly before the clock reading; and
  otherwise, in particular for every active key without expiry, they succeed with that key,
  whose app is the one an accepted event is stored under. The handler, once the rate
  limiter has admitted the request, answers accordingly.
\<close>

theorem key_checks:
  assumes "filter (\<lambda>k. k_key_hash k = hashApiKey apiKey) (api_keys (db st)) = [r]"
  shows "(\<not> k_is_active r \<longrightarrow>
            verify_api_key (now_expiry env) (hashApiKey apiKey) (api_keys (db st)) = Inl Revoked) \<and>
         (k_is_active r \<and> (\<exists>t. k_expires_at r = Some t \<and> t < now_expiry env) \<longrightarrow>
            verify_api_key (now_expiry env) (hashApiKey apiKey) (api_keys (db st)) = Inl Expired) \<and>
         (k_is_active r \<and> (k_expires_at r = None \<or> (\<exists>t. k_expires_at r = Some t \<and> now_expiry env \<le> t)) \<longrightarrow>
            verify_api_key (now_expiry env) (hashApiKey apiKey) (api_keys (db st)) = Inr r) \<and>
         (\<not> c_is_options req \<and> x_api_key req = Some apiKey \<and> apiKey \<noteq> [] \<and>
          fst (checkRateLimit (now_rate_limit env) (hashApiKey apiKey) (rateLimitMap st)) \<longrightarrow>
            fst (collect parseDate env req st) =
              (case verify_api_key (now_expiry env) (hashApiKey apiKey) (api_keys (db st)) of
                 Inl e \<Rightarrow> Rejected e
               | Inr r' \<Rightarrow> fst (store_event parseDate env req r' (db st))) \<and>
            (\<forall>msg. fst (collect parseDate env req st) = OK msg \<longrightarrow>
               e_app_id (last (analytics_events (db (snd (collect parseDate env req st))))) = k_app_id r))"
proof -
  note v = verify_api_key_match [OF assms, of "now_expiry env"]
  have handler: "fst (collect parseDate env req st) =
              (case verify_api_key (now_expiry env) (hashApiKey apiKey) (api_keys (db st)) of
                 Inl e \<Rightarrow> Rejected e
               | Inr r' \<Rightarrow> fst (store_event parseDate env req r' (db st))) \<and>
            (\<forall>msg. fst (collect parseDate env req st) = OK msg \<longrightarrow>
               e_app_id (last (analytics_events (db (snd (collect parseDate env req st))))) = k_app_id r)"
    if h: "\<not> c_is_options req" "x_api_key req = Some apiKey" "apiKey \<noteq> []"
      "fst (checkRateLimit (now_rate_limit env) (hashApiKey apiKey) (rateLimitMap st))"
  proof -
    note u = collect_unfold [OF h(1-3), of parseDate env st]
    have stored: "e_app_id (last (analytics_events (db (snd (collect parseDate env req st))))) = k_app_id r"
      if ok: "fst (collect parseDate env req st) = OK msg" for msg
    proof -
      have vr: "verify_api_key (now_expiry env) (hashApiKey apiKey) (api_keys (db st)) = Inr r"
        using ok u h(4) v by (auto split: if_splits)
      have c: "collect parseDate env req st =
          (fst (store_event parseDate env req r (db st)),
           st\<lparr>rateLimitMap := snd (checkRateLimit (now_rate_limit env) (hashApiKey apiKey) (rateLimitMap st)),
              db := snd (store_event parseDate env req r (db st))\<rparr>)"
        using h vr by (simp add: collect_def Let_def)
      with ok have "fst (store_event parseDate env req r (db st)) = OK msg" by simp
      then have "e_app_id (last (analytics_events (snd (store_event parseDate env req r (db st))))) = k_app_id r"
        by (auto simp: store_event_def new_event_row_def split: option.splits sum.splits if_splits)
      then show ?thesis by (simp add: c)
    qed
    show ?thesis using u h(4) stored by simp
  qed
  show ?thesis
    using v handler by (auto split: if_splits)
qed

theorem key_checks_witness:
  "fst (collect [''2024-02-20T12:34:56Z'' \<mapsto> 1708432496000]
        \<lparr>now_rate_limit = 5, now_expiry = 7, now_insert = 8, now_last_used = 9, insert_fails = False\<rparr>
        \<lparr>c_is_options = False, x_api_key = Some ''ak_live'', user_agent = Some ''agent'',
         c_body = Some \<lparr>event = Some ''click'', url = Some ''/home'', referrer = Some [], device = Some [],
                        ipAddress = Some [], timestamp = None, metadata = None\<rparr>\<rparr>
        \<lparr>rateLimitMap = Map.empty,
         db = \<lparr>apps = [], api_keys =
           [\<lparr>k_id = ''key-1'', k_app_id = ''app-1'', k_user_id = ''user-1'',
            k_key_hash = hashApiKey ''ak_live'', k_key_prefix = ''ak_live'', k_is_active = False,
            k_expires_at = Some 3, k_last_used_at = None, k_revoked_at = None\<rparr>],
           analytics_events = []\<rparr>\<rparr>) = Rejected Revoked \<and>
   fst (collect [''2024-02-20T12:34:56Z'' \<mapsto> 1708432496000]
        \<lparr>now_rate_limit = 5, now_expiry = 7, now_insert = 8, now_last_used = 9, insert_fails = False\<rparr>
        \<lparr>c_is_options = False, x_api_key = Some ''ak_live'', user_agent = Some ''agent'',
         c_body = Some \<lparr>event = Some ''click'', url = Some ''/home'', referrer = Some [], device = Some [],
                        ipAddress = Some [], timestamp = None, metadata = None\<rparr>\<rparr>
        \<lparr>rateLimitMap = Map.empty,
         db = \<lparr>apps = [], api_keys =
           [\<lparr>k_id = ''key-1'', k_app_id = ''app-1'', k_user_id = ''user-1'',
            k_key_hash = hashApiKey ''ak_live'', k_key_prefix = ''ak_live'', k_is_active = True,
            k_expires_at = Some 3, k_last_used_at = None, k_revoked_at = None\<rparr>],
           analytics_events = []\<rparr>\<rparr>) = Rejected Expired \<and>
   fst (collect [''2024-02-20T12:34:56Z'' \<mapsto> 1708432496000]
        \<lparr>now_rate_limit = 5, now_expiry = 7, now_insert = 8, now_last_used = 9, insert_fails = False\<rparr>
        \<lparr>c_is_options = False, x_api_key = Some ''ak_live'', user_agent = Some ''agent'',
         c_body = Some \<lparr>event = Some ''click'', url = Some ''/home'', referrer = Some [], device = Some [],
                        ipAddress = Some [], timestamp = None, metadata = None\<rparr>\<rparr>
        \<lparr>rateLimitMap = Map.empty,
         db = \<lparr>apps = [], api_keys =
           [\<lparr>k_id = ''key-1'', k_app_id = ''app-1'', k_user_id = ''user-1'',
            k_key_hash = hashApiKey ''ak_live'', k_key_prefix = ''ak_live'', k_is_active = True,
            k_expires_at = Some 7, k_last_used_at = None, k_revoked_at = None\<rparr>],
           analytics_events = []\<rparr>\<rparr>) = OK ''Event collected successfully'' \<and>
   fst (collect [''2024-02-20T12:34:56Z'' \<mapsto> 1708432496000]
        \<lparr>now_rate_limit = 5, now_expiry = 7, now_insert = 8, now_last_used = 9, insert_fails = False\<rparr>
        \<lparr>c_is_options = False, x_api_key = Some ''ak_live'', user_agent = Some ''agent'',
         c_body = Some \<lparr>event = Some ''click'', url = Some ''/home'', referrer = Some [], device = Some [],
                        ipAddress = Some [], timestamp = None, metadata = None\<rparr>\<rparr>
        \<lparr>rateLimitMap = Map.empty,
         db = \<lparr>apps = [], api_keys =
           [\<lparr>k_id = ''key-1'', k_app_id = ''app-1'', k_user_id = ''user-1'',
            k_key_hash = hashApiKey ''ak_live'', k_key_prefix = ''ak_live'', k_is_active = True,
            k_expires_at = None, k_last_used_at = None, k_revoked_at = None\<rparr>],
           analytics_events = []\<rparr>\<rparr>) = OK ''Event collected successfully''"
proof -
  let ?env = "\<lparr>now_rate_limit = 5, now_expiry = 7, now_insert = 8, now_last_used = 9, insert_fails = False\<rparr>"
  let ?req = "\<lparr>c_is_options = False, x_api_key = Some ''ak_live'', user_agent = Some ''agent'',
         c_body = Some \<lparr>event = Some ''click'', url = Some ''/home'', referrer = Some [], device = Some [],
                        ipAddress = Some [], timestamp = None, metadata = None\<rparr>\<rparr>"
  have adm: "fst (checkRateLimit (now_rate_limit ?env) (hashApiKey ''ak_live'') Map.empty)"
    by (simp add: checkRateLimit_def)
  have a: "fst (collect [''2024-02-20T12:34:56Z'' \<mapsto> 1708432496000] ?env ?req (\<lparr>rateLimitMap = Map.empty,
         db = \<lparr>apps = [], api_keys =
           [\<lparr>k_id = ''key-1'', k_app_id = ''app-1'', k_user_id = ''user-1'',
            k_key_hash = hashApiKey ''ak_live'', k_key_prefix = ''ak_live'', k_is_active = False,
            k_expires_at = Some 3, k_last_used_at = None, k_revoked_at = None\<rparr>],
           analytics_events = []\<rparr>\<rparr>)) = Rejected Revoked"
    using key_checks [where apiKey = "''ak_live''" and req = ?req and env = ?env
        and st = "\<lparr>rateLimitMap = Map.empty,
         db = \<lparr>apps = [], api_keys =
           [\<lparr>k_id = ''key-1'', k_app_id = ''app-1'', k_user_id = ''user-1'',
            k_key_hash = hashApiKey ''ak_live'', k_key_prefix = ''ak_live'', k_is_active = False,
            k_expires_at = Some 3, k_last_used_at = None, k_revoked_at = None\<rparr>],
           analytics_events = []\<rparr>\<rparr>"
        and r = "\<lparr>k_id = ''key-1'', k_app_id = ''app-1'', k_user_id = ''user-1'',
            k_key_hash = hashApiKey ''ak_live'', k_key_prefix = ''ak_live'', k_is_active = False,
            k_expires_at = Some 3, k_last_used_at = None, k_revoked_at = None\<rparr>"] adm
    by simp
  have b: "fst (collect [''2024-02-20T12:34:56Z'' \<mapsto> 1708432496000] ?env ?req (\<lparr>rateLimitMap = Map.empty,
         db = \<lparr>apps = [], api_keys =
           [\<lparr>k_id = ''key-1'', k_app_id = ''app-1'', k_user_id = ''user-1'',
            k_key_hash = hashApiKey ''ak_live'', k_key_prefix = ''ak_live'', k_is_active = True,
            k_expires_at = Some 3, k_last_used_at = None, k_revoked_at = None\<rparr>],
           analytics_events = []\<rparr>\<rparr>)) = Rejected Expired"
    using key_checks [where apiKey = "''ak_live''" and req = ?req and env = ?env
        and st = "\<lparr>rateLimitMap = Map.empty,
         db = \<lparr>apps = [], api_keys =
           [\<lparr>k_id = ''key-1'', k_app_id = ''app-1'', k_user_id = ''user-1'',
            k_key_hash = hashApiKey ''ak_live'', k_key_prefix = ''ak_live'', k_is_active = True,
            k_expires_at = Some 3, k_last_used_at = None, k_revoked_at = None\<rparr>],
           analytics_events = []\<rparr>\<rparr>"
        and r = "\<lparr>k_id = ''key-1'', k_app_id = ''app-1'', k_user_id = ''user-1'',
            k_key_hash = hashApiKey ''ak_live'', k_key_prefix = ''ak_live'', k_is_active = True,
            k_expires_at = Some 3, k_last_used_at = None, k_revoked_at = None\<rparr>"] adm
    by simp
  have c: "fst (collect [''2024-02-20T12:34:56Z'' \<mapsto> 1708432496000] ?env ?req (\<lparr>rateLimitMap = Map.empty,
         db = \<lparr>apps = [], api_keys =
           [\<lparr>k_id = ''key-1'', k_app_id = ''app-1'', k_user_id = ''user-1'',
            k_key_hash = hashApiKey ''ak_live'', k_key_prefix = ''ak_live'', k_is_active = True,
            k_expires_at = Some 7, k_last_used_at = None, k_revoked_at = None\<rparr>],
           analytics_events = []\<rparr>\<rparr>)) = OK ''Event collected successfully''"
    using key_checks [where apiKey = "''ak_live''" and req = ?req and env = ?env
        and st = "\<lparr>rateLimitMap = Map.empty,
         db = \<lparr>apps = [], api_keys =
           [\<lparr>k_id = ''key-1'', k_app_id = ''app-1'', k_user_id = ''user-1'',
            k_key_hash = hashApiKey ''ak_live'', k_key_prefix = ''ak_live'', k_is_active = True,
            k_expires_at = Some 7, k_last_used_at = None, k_revoked_at = None\<rparr>],
           analytics_events = []\<rparr>\<rparr>"
        and r = "\<lparr>k_id = ''key-1'', k_app_id = ''app-1'', k_user_id = ''user-1'',
            k_key_hash = hashApiKey ''ak_live'', k_key_prefix = ''ak_live'', k_is_active = True,
            k_expires_at = Some 7, k_last_used_at = None, k_revoked_at = None\<rparr>"
        and parseDate = "[''2024-02-20T12:34:56Z'' \<mapsto> 1708432496000]"] adm
    by (simp add: store_event_def event_timestamp_def)
  have d: "fst (collect [''2024-02-20T12:34:56Z'' \<mapsto> 1708432496000] ?env ?req (\<lparr>rateLimitMap = Map.empty,
         db = \<lparr>apps = [], api_keys =
           [\<lparr>k_id = ''key-1'', k_app_id = ''app-1'', k_user_id = ''user-1'',
            k_key_hash = hashApiKey ''ak_live'', k_key_prefix = ''ak_live'', k_is_active = True,
            k_expires_at = None, k_last_used_at = None, k_revoked_at = None\<rparr>],
           analytics_events = []\<rparr>\<rparr>)) = OK ''Event collected successfully''"
    using key_checks [where apiKey = "''ak_live''" and req = ?req and env = ?env
        and st = "\<lparr>rateLimitMap = Map.empty,
         db = \<lparr>apps = [], api_keys =
           [\<lparr>k_id = ''key-1'', k_app_id = ''app-1'', k_user_id = ''user-1'',
            k_key_hash = hashApiKey ''ak_live'', k_key_prefix = ''ak_live'', k_is_active = True,
            k_expires_at = None, k_last_used_at = None, k_revoked_at = None\<rparr>],
           analytics_events = []\<rparr>\<rparr>"
        and r = "\<lparr>k_id = ''key-1'', k_app_id = ''app-1'', k_user_id = ''user-1'',
            k_key_hash = hashApiKey ''ak_live'', k_key_prefix = ''ak_live'', k_is_active = True,
            k_expires_at = None, k_last_used_at = None, k_revoked_at = None\<rparr>"
        and parseDate = "[''2024-02-20T12:34:56Z'' \<mapsto> 1708432496000]"] adm
    by (simp add: store_event_def event_timestamp_def)
  show ?thesis using a b c d by blast
qed


section \<open>The timestamp of a stored event\<close>

lemma collect_events_unchanged_or_appended:
  "analytics_events (db (snd (collect parseDate env req st))) = analytics_events (db st) \<or>
   (\<exists>msg. fst (collect parseDate env req st) = OK msg)"
  by (auto simp: collect_def store_event_def Let_def split: option.splits sum.splits if_splits)

text \<open>
  Claim C3 says that an event whose timestamp string does not parse is still stored, with
  the server time. The handler does otherwise: \<^verbatim>\<open>toISOString()\<close> throws on the Invalid
  Date, the request is answered with the 500 of the \<^verbatim>\<open>catch\<close> block and no row is
  inserted.
\<close>

theorem unparseable_timestamp_rejected:
  assumes "c_body req = Some eventData" and "timestamp eventData = Some s"
    and "s \<noteq> []" and "parseDate s = None"
  shows "(\<forall>msg. fst (collect parseDate env req st) \<noteq> OK msg) \<and>
         analytics_events (db (snd (collect parseDate env req st))) = analytics_events (db st) \<and>
         (\<not> c_is_options req \<and> x_api_key req = Some apiKey \<and> apiKey \<noteq> [] \<and>
          fst (checkRateLimit (now_rate_limit env) (hashApiKey apiKey) (rateLimitMap st)) \<and>
          verify_api_key (now_expiry env) (hashApiKey apiKey) (api_keys (db st)) = Inr r \<and>
          truthy (event eventData) \<and> truthy (url eventData)
          \<longrightarrow> fst (collect parseDate env req st) = Rejected InternalError)"
proof -
  have ts: "event_timestamp parseDate (now_insert env) (timestamp eventData) = Inl InternalError"
    using assms by (simp add: event_timestamp_def)
  have no: "fst (store_event parseDate env req r' d) \<noteq> OK msg" for r' d msg
    using assms(1) ts by (auto simp: store_event_def split: option.splits)
  have a: "fst (collect parseDate env req st) \<noteq> OK msg" for msg
    using no by (auto simp: collect_def Let_def split: option.splits sum.splits)
  have b: "analytics_events (db (snd (collect parseDate env req st))) = analytics_events (db st)"
    using collect_events_unchanged_or_appended [of parseDate env req st] a by blast
  have c: "fst (collect parseDate env req st) = Rejected InternalError"
    if "\<not> c_is_options req" "x_api_key req = Some apiKey" "apiKey \<noteq> []"
      "fst (checkRateLimit (now_rate_limit env) (hashApiKey apiKey) (rateLimitMap st))"
      "verify_api_key (now_expiry env) (hashApiKey apiKey) (api_keys (db st)) = Inr r"
      "truthy (event eventData)" "truthy (url eventData)"
    using that assms(1) ts
    by (auto simp: collect_def Let_def store_event_def truthy_def split: option.splits)
  show ?thesis using a b c by blast
qed

theorem unparseable_timestamp_rejected_witness:
  "collect [''2024-02-20T12:34:56Z'' \<mapsto> 1708432496000]
        \<lparr>now_rate_limit = 5, now_expiry = 7, now_insert = 8, now_last_used = 9, insert_fails = False\<rparr>
        \<lparr>c_is_options = False, x_api_key = Some ''ak_live'', user_agent = Some ''agent'',
         c_body = Some \<lparr>event = Some ''click'', url = Some ''/home'', referrer = Some [], device = Some [],
                        ipAddress = Some [], timestamp = Some ''yesterday'', metadata = None\<rparr>\<rparr>
        \<lparr>rateLimitMap = Map.empty,
         db = \<lparr>apps = [], api_keys =
           [\<lparr>k_id = ''key-1'', k_app_id = ''app-1'', k_user_id = ''user-1'',
            k_key_hash = hashApiKey ''ak_live'', k_key_prefix = ''ak_live'', k_is_active = True,
            k_expires_at = None, k_last_used_at = None, k_revoked_at = None\<rparr>],
           analytics_events = []\<rparr>\<rparr>
   = (Rejected InternalError,
      \<lparr>rateLimitMap = [hashApiKey ''ak_live'' \<mapsto> \<lparr>count = 1, resetAt = 60005\<rparr>],
         db = \<lparr>apps = [], api_keys =
           [\<lparr>k_id = ''key-1'', k_app_id = ''app-1'', k_user_id = ''user-1'',
            k_key_hash = hashApiKey ''ak_live'', k_key_prefix = ''ak_live'', k_is_active = True,
            k_expires_at = None, k_last_used_at = None, k_revoked_at = None\<rparr>],
           analytics_events = []\<rparr>\<rparr>)"
proof -
  let ?env = "\<lparr>now_rate_limit = 5, now_expiry = 7, now_insert = 8, now_last_used = 9, insert_fails = False\<rparr>"
  let ?req = "\<lparr>c_is_options = False, x_api_key = Some ''ak_live'', user_agent = Some ''agent'',
         c_body = Some \<lparr>event = Some ''click'', url = Some ''/home'', referrer = Some [], device = Some [],
                        ipAddress = Some [], timestamp = Some ''yesterday'', metadata = None\<rparr>\<rparr>"
  let ?row = "\<lparr>k_id = ''key-1'', k_app_id = ''app-1'', k_user_id = ''user-1'',
            k_key_hash = hashApiKey ''ak_live'', k_key_prefix = ''ak_live'', k_is_active = True,
            k_expires_at = None, k_last_used_at = None, k_revoked_at = None\<rparr>"
  let ?st = "\<lparr>rateLimitMap = Map.empty,
         db = \<lparr>apps = [], api_keys =
           [\<lparr>k_id = ''key-1'', k_app_id = ''app-1'', k_user_id = ''user-1'',
            k_key_hash = hashApiKey ''ak_live'', k_key_prefix = ''ak_live'', k_is_active = True,
            k_expires_at = None, k_last_used_at = None, k_revoked_at = None\<rparr>],
           analytics_events = []\<rparr>\<rparr>"
  have v: "verify_api_key (now_expiry ?env) (hashApiKey ''ak_live'') (api_keys (db ?st)) = Inr ?row"
    by (simp add: verify_api_key_def single_def)
  have adm: "fst (checkRateLimit (now_rate_limit ?env) (hashApiKey ''ak_live'') (rateLimitMap ?st))"
    by (simp add: checkRateLimit_def)
  have resp: "fst (collect [''2024-02-20T12:34:56Z'' \<mapsto> 1708432496000] ?env ?req ?st) = Rejected InternalError"
    using unparseable_timestamp_rejected [where req = ?req and env = ?env and st = ?st
        and eventData = "\<lparr>event = Some ''click'', url = Some ''/home'', referrer = Some [], device = Some [],
                        ipAddress = Some [], timestamp = Some ''yesterday'', metadata = None\<rparr>"
        and s = "''yesterday''" and parseDate = "[''2024-02-20T12:34:56Z'' \<mapsto> 1708432496000]"
        and apiKey = "''ak_live''" and r = ?row] v adm
    by (simp add: truthy_def)
  have state: "snd (collect [''2024-02-20T12:34:56Z'' \<mapsto> 1708432496000] ?env ?req ?st) =
      \<lparr>rateLimitMap = [hashApiKey ''ak_live'' \<mapsto> \<lparr>count = 1, resetAt = 60005\<rparr>], db = db ?st\<rparr>"
    using v by (simp add: collect_def Let_def checkRateLimit_def RATE_LIMIT_WINDOW_def
          store_event_def event_timestamp_def)
  show ?thesis using resp state by (simp add: prod_eq_iff)
qed

lemma accepted_event_timestamp:
  assumes "fst (collect parseDate env req st) = OK msg" and "c_body req = Some eventData"
  shows "event_timestamp parseDate (now_insert env) (timestamp eventData)
           = Inr (e_timestamp (last (analytics_events (db (snd (collect parseDate env req st))))))"
  using assms
  by (auto simp: collect_def Let_def store_event_def new_event_row_def
           split: option.splits sum.splits if_splits)

section \<open>Revoking a key\<close>

text \<open>
  Claim C4, as the code has it. For an authenticated caller and a non-empty key identity,
  when the store does not fail the update, revoking always acknowledges: every key with
  that identity owned by the caller gets its active flag set to false and its revocation
  time set to the clock reading, every other row is left as it was, and when no key
  matches the store is unchanged.
\<close>

theorem revoke_acknowledges:
  assumes "\<not> r_is_options req" and "truthy (r_authorization req)" and "r_user env = Some uid"
    and "r_body req = Some b" and "api_key_id b = Some kid" and "kid \<noteq> []"
    and "\<not> update_fails env"
  shows "fst (revoke env req d) = OK ''API key revoked successfully'' \<and>
         apps (snd (revoke env req d)) = apps d \<and>
         analytics_events (snd (revoke env req d)) = analytics_events d \<and>
         api_keys (snd (revoke env req d)) =
           map (\<lambda>k. if k_id k = kid \<and> k_user_id k = uid
                     then k\<lparr>k_is_active := False, k_revoked_at := Some (now_revoked env)\<rparr> else k)
             (api_keys d) \<and>
         ((\<forall>k \<in> set (api_keys d). \<not> (k_id k = kid \<and> k_user_id k = uid)) \<longrightarrow> snd (revoke env req d) = d)"
proof -
  have r: "revoke env req d =
      (OK ''API key revoked successfully'',
       d\<lparr>api_keys := map (\<lambda>k. if k_id k = kid \<and> k_user_id k = uid
                     then k\<lparr>k_is_active := False, k_revoked_at := Some (now_revoked env)\<rparr> else k)
             (api_keys d)\<rparr>)"
    using assms by (simp add: revoke_def)
  have "map (\<lambda>k. if k_id k = kid \<and> k_user_id k = uid
                     then k\<lparr>k_is_active := False, k_revoked_at := Some (now_revoked env)\<rparr> else k)
             (api_keys d) = api_keys d"
    if "\<forall>k \<in> set (api_keys d). \<not> (k_id k = kid \<and> k_user_id k = uid)"
    using that by (intro map_idI) auto
  then show ?thesis by (auto simp: r)
qed

theorem revoke_acknowledges_witness:
  "revoke \<lparr>r_user = Some ''user-1'', now_revoked = 1000, update_fails = False\<rparr>
     \<lparr>r_is_options = False, r_authorization = Some ''Bearer t'',
       r_body = Some \<lparr>api_key_id = Some ''key-1''\<rparr>\<rparr>
     \<lparr>apps = [],
       api_keys =
         [\<lparr>k_id = ''key-1'', k_app_id = ''app-1'', k_user_id = ''user-1'', k_key_hash = ''h'',
          k_key_prefix = ''ak_0'', k_is_active = True, k_expires_at = None,
          k_last_used_at = None, k_revoked_at = None\<rparr>],
       analytics_events = []\<rparr>
   = (OK ''API key revoked successfully'',
      \<lparr>apps = [],
       api_keys =
         [\<lparr>k_id = ''key-1'', k_app_id = ''app-1'', k_user_id = ''user-1'', k_key_hash = ''h'',
          k_key_prefix = ''ak_0'', k_is_active = False, k_expires_at = None,
          k_last_used_at = None, k_revoked_at = Some 1000\<rparr>],
       analytics_events = []\<rparr>)"
  using revoke_acknowledges [where env = "\<lparr>r_user = Some ''user-1'', now_revoked = 1000, update_fails = False\<rparr>"
      and req = "\<lparr>r_is_options = False, r_authorization = Some ''Bearer t'',
       r_body = Some \<lparr>api_key_id = Some ''key-1''\<rparr>\<rparr>"
      and uid = "''user-1''" and kid = "''key-1''" and b = "\<lparr>api_key_id = Some ''key-1''\<rparr>"
      and d = "\<lparr>apps = [],
       api_keys =
         [\<lparr>k_id = ''key-1'', k_app_id = ''app-1'', k_user_id = ''user-1'', k_key_hash = ''h'',
          k_key_prefix = ''ak_0'', k_is_active = True, k_expires_at = None,
          k_last_used_at = None, k_revoked_at = None\<rparr>],
       analytics_events = []\<rparr>"]
  by (simp add: truthy_def prod_eq_iff)

text \<open>
  Claim C4, as stated, fails: the caller owns no key with the given identity, and the
  answer is the acknowledgement, not a 404.
\<close>

theorem revoke_unowned_key_acknowledged:
  "revoke \<lparr>r_user = Some ''user-1'', now_revoked = 1000, update_fails = False\<rparr>
     \<lparr>r_is_options = False, r_authorization = Some ''Bearer t'', r_body = Some \<lparr>api_key_id = Some ''key-1''\<rparr>\<rparr>
     \<lparr>apps = [],
      api_keys = [\<lparr>k_id = ''key-2'', k_app_id = ''app-2'', k_user_id = ''user-2'', k_key_hash = ''h'',
                   k_key_prefix = ''ak_0'', k_is_active = True, k_expires_at = None,
                   k_last_used_at = None, k_revoked_at = None\<rparr>],
      analytics_events = []\<rparr>
   = (OK ''API key revoked successfully'',
      \<lparr>apps = [],
       api_keys = [\<lparr>k_id = ''key-2'', k_app_id = ''app-2'', k_user_id = ''user-2'', k_key_hash = ''h'',
                   k_key_prefix = ''ak_0'', k_is_active = True, k_expires_at = None,
                   k_last_used_at = None, k_revoked_at = None\<rparr>],
       analytics_events = []\<rparr>)"
  by (simp add: revoke_def truthy_def)

section \<open>Scoping of the summary\<close>

text \<open>
  Claim C7. For an authenticated caller and a non-empty event name: with an
  \<^verbatim>\<open>app_id\<close> that no app owned by the caller has, whether or not another user's app has
  it, the answer is the 404 NotFound; without an \<^verbatim>\<open>app_id\<close>, for a caller who owns no
  app, the answer is the zero-valued summary with status 200.
\<close>

theorem summary_scoping:
  assumes "\<not> s_is_options req" and "truthy (s_authorization req)" and "s_user env = Some uid"
    and "q_event req = Some ev" and "ev \<noteq> []"
  shows "(q_app_id req = Some appId \<and> appId \<noteq> [] \<and>
            (\<forall>a \<in> set (apps d). a_id a = appId \<longrightarrow> a_user_id a \<noteq> uid)
          \<longrightarrow> event_summary parseDate env req d = Rejected NotFound) \<and>
         (\<not> truthy (q_app_id req) \<and> (\<forall>a \<in> set (apps d). a_user_id a \<noteq> uid)
          \<longrightarrow> event_summary parseDate env req d
                = OK \<lparr>s_event = ev, s_count = 0, uniqueUsers = 0, deviceData = Map.empty\<rparr>)"
proof -
  have nf: "event_summary parseDate env req d = Rejected NotFound"
    if h: "q_app_id req = Some appId" "appId \<noteq> []"
      "\<forall>a \<in> set (apps d). a_id a = appId \<longrightarrow> a_user_id a \<noteq> uid"
  proof -
    have "filter (\<lambda>a. Some (a_id a) = q_app_id req \<and> a_user_id a = uid) (apps d) = []"
      using h by (auto simp: filter_empty_conv)
    then have "scope_events uid ev (q_app_id req) d = Inl (Rejected NotFound)"
      using h by (simp add: scope_events_def truthy_def single_def)
    then show ?thesis using assms by (simp add: event_summary_def)
  qed
  have zero: "event_summary parseDate env req d
                = OK \<lparr>s_event = ev, s_count = 0, uniqueUsers = 0, deviceData = Map.empty\<rparr>"
    if h: "\<not> truthy (q_app_id req)" "\<forall>a \<in> set (apps d). a_user_id a \<noteq> uid"
  proof -
    have "filter (\<lambda>a. a_user_id a = uid) (apps d) = []"
      using h by (auto simp: filter_empty_conv)
    then have "scope_events uid ev (q_app_id req) d
        = Inl (OK \<lparr>s_event = ev, s_count = 0, uniqueUsers = 0, deviceData = Map.empty\<rparr>)"
      using h by (simp add: scope_events_def)
    then show ?thesis using assms by (simp add: event_summary_def)
  qed
  show ?thesis using nf zero by blast
qed

theorem summary_scoping_witness:
  "event_summary Map.empty \<lparr>s_user = Some ''user-1'', query_fails = False\<rparr>
     \<lparr>s_is_options = False, s_authorization = Some ''Bearer t'', q_event = Some ''click'',
       q_startDate = None, q_endDate = None, q_app_id = Some ''app-2''\<rparr>
     \<lparr>apps = [\<lparr>a_id = ''app-2'', a_user_id = ''user-2'', a_name = ''B'', a_domain = ''b.example'',
                a_description = None\<rparr>],
       api_keys = [],
       analytics_events =
         [\<lparr>e_app_id = ''app-2'', e_event = ''click'', e_url = ''/'', e_referrer = None,
                e_device = Some ''mobile'', e_ip_address = Some ''1.1.1.1'', e_user_agent = None,
                e_browser = None, e_os = None, e_screen_size = None, e_metadata = None,
                e_timestamp = 10\<rparr>]\<rparr>
   = Rejected NotFound \<and>
   event_summary Map.empty \<lparr>s_user = Some ''user-1'', query_fails = False\<rparr>
     \<lparr>s_is_options = False, s_authorization = Some ''Bearer t'', q_event = Some ''click'',
       q_startDate = None, q_endDate = None, q_app_id = None\<rparr>
     \<lparr>apps = [\<lparr>a_id = ''app-2'', a_user_id = ''user-2'', a_name = ''B'', a_domain = ''b.example'',
                a_description = None\<rparr>],
       api_keys = [],
       analytics_events =
         [\<lparr>e_app_id = ''app-2'', e_event = ''click'', e_url = ''/'', e_referrer = None,
                e_device = Some ''mobile'', e_ip_address = Some ''1.1.1.1'', e_user_agent = None,
                e_browser = None, e_os = None, e_screen_size = None, e_metadata = None,
                e_timestamp = 10\<rparr>]\<rparr>
   = OK \<lparr>s_event = ''click'', s_count = 0, uniqueUsers = 0, deviceData = Map.empty\<rparr>"
proof -
  have a: "event_summary Map.empty \<lparr>s_user = Some ''user-1'', query_fails = False\<rparr>
     \<lparr>s_is_options = False, s_authorization = Some ''Bearer t'', q_event = Some ''click'',
       q_startDate = None, q_endDate = None, q_app_id = Some ''app-2''\<rparr>
     \<lparr>apps = [\<lparr>a_id = ''app-2'', a_user_id = ''user-2'', a_name = ''B'', a_domain = ''b.example'',
                a_description = None\<rparr>],
       api_keys = [],
       analytics_events =
         [\<lparr>e_app_id = ''app-2'', e_event = ''click'', e_url = ''/'', e_referrer = None,
                e_device = Some ''mobile'', e_ip_address = Some ''1.1.1.1'', e_user_agent = None,
                e_browser = None, e_os = None, e_screen_size = None, e_metadata = None,
                e_timestamp = 10\<rparr>]\<rparr>
   = Rejected NotFound"
    using summary_scoping [where env = "\<lparr>s_user = Some ''user-1'', query_fails = False\<rparr>"
      and req = "\<lparr>s_is_options = False, s_authorization = Some ''Bearer t'', q_event = Some ''click'',
       q_startDate = None, q_endDate = None, q_app_id = Some ''app-2''\<rparr>"
      and uid = "''user-1''" and ev = "''click''" and appId = "''app-2''" and parseDate = Map.empty
      and d = "\<lparr>apps = [\<lparr>a_id = ''app-2'', a_user_id = ''user-2'', a_name = ''B'', a_domain = ''b.example'',
                a_description = None\<rparr>],
       api_keys = [],
       analytics_events =
         [\<lparr>e_app_id = ''app-2'', e_event = ''click'', e_url = ''/'', e_referrer = None,
                e_device = Some ''mobile'', e_ip_address = Some ''1.1.1.1'', e_user_agent = None,
                e_browser = None, e_os = None, e_screen_size = None, e_metadata = None,
                e_timestamp = 10\<rparr>]\<rparr>"]
    by (simp add: truthy_def)
  have b: "event_summary Map.empty \<lparr>s_user = Some ''user-1'', query_fails = False\<rparr>
     \<lparr>s_is_options = False, s_authorization = Some ''Bearer t'', q_event = Some ''click'',
       q_startDate = None, q_endDate = None, q_app_id = None\<rparr>
     \<lparr>apps = [\<lparr>a_id = ''app-2'', a_user_id = ''user-2'', a_name = ''B'', a_domain = ''b.example'',
                a_description = None\<rparr>],
       api_keys = [],
       analytics_events =
         [\<lparr>e_app_id = ''app-2'', e_event = ''click'', e_url = ''/'', e_referrer = None,
                e_device = Some ''mobile'', e_ip_address = Some ''1.1.1.1'', e_user_agent = None,
                e_browser = None, e_os = None, e_screen_size = None, e_metadata = None,
                e_timestamp = 10\<rparr>]\<rparr>
   = OK \<lparr>s_event = ''click'', s_count = 0, uniqueUsers = 0, deviceData = Map.empty\<rparr>"
    using summary_scoping [where env = "\<lparr>s_user = Some ''user-1'', query_fails = False\<rparr>"
      and req = "\<lparr>s_is_options = False, s_authorization = Some ''Bearer t'', q_event = Some ''click'',
       q_startDate = None, q_endDate = None, q_app_id = None\<rparr>"
      and uid = "''user-1''" and ev = "''click''" and parseDate = Map.empty
      and d = "\<lparr>apps = [\<lparr>a_id = ''app-2'', a_user_id = ''user-2'', a_name = ''B'', a_domain = ''b.example'',
                a_description = None\<rparr>],
       api_keys = [],
       analytics_events =
         [\<lparr>e_app_id = ''app-2'', e_event = ''click'', e_url = ''/'', e_referrer = None,
                e_device = Some ''mobile'', e_ip_address = Some ''1.1.1.1'', e_user_agent = None,
                e_browser = None, e_os = None, e_screen_size = None, e_metadata = None,
                e_timestamp = 10\<rparr>]\<rparr>"]
    by (simp add: truthy_def)
  show ?thesis using a b by blast
qed

section \<open>The statistics of the summary\<close>

lemma add_device_at:
  assumes "d \<notin> set Object_prototype_keys"
  shows "add_device obj e d =
     (if e_device e = Some d \<and> d \<noteq> [] then Some (or_zero_plus_one (obj d)) else obj d)"
proof -
  have "d \<noteq> ''__proto__''"
    using assms by (auto simp: Object_prototype_keys_def)
  then show ?thesis
    using assms by (auto simp: add_device_def set_prop_def get_prop_def split: option.splits)
qed

lemma foldl_add_device_at:
  assumes "d \<notin> set Object_prototype_keys"
    and "obj d = (if n = 0 then None else Some (JNumber n))"
  shows "foldl add_device obj events d =
     (if d = [] \<or> n + length (filter (\<lambda>e. e_device e = Some d) events) = 0
      then obj d
      else Some (JNumber (n + length (filter (\<lambda>e. e_device e = Some d) events))))"
  using assms(2)
proof (induction events arbitrary: obj n)
  case Nil
  then show ?case by simp
next
  case (Cons e events)
  show ?case
  proof (cases "e_device e = Some d \<and> d \<noteq> []")
    case True
    then have "add_device obj e d = (if Suc n = 0 then None else Some (JNumber (Suc n)))"
      using add_device_at [OF assms(1), of obj e] Cons.prems
      by (simp add: or_zero_plus_one_def)
    from Cons.IH [of "add_device obj e" "Suc n"] this True show ?thesis by simp
  next
    case False
    then have same: "add_device obj e d = obj d"
      using add_device_at [OF assms(1), of obj e] by auto
    then have "add_device obj e d = (if n = 0 then None else Some (JNumber n))"
      using Cons.prems by simp
    from Cons.IH [of "add_device obj e" n] this False same show ?thesis by auto
  qed
qed

lemma device_histogram_at:
  assumes "d \<notin> set Object_prototype_keys"
  shows "device_histogram events d =
     (if d \<noteq> [] \<and> (\<exists>e \<in> set events. e_device e = Some d)
      then Some (JNumber (length (filter (\<lambda>e. e_device e = Some d) events)))
      else None)"
proof -
  have "length (filter (\<lambda>e. e_device e = Some d) events) = 0 \<longleftrightarrow> \<not> (\<exists>e \<in> set events. e_device e = Some d)"
    by (simp add: filter_empty_conv)
  then show ?thesis
    using foldl_add_device_at [OF assms, of Map.empty 0 events]
    by (auto simp: device_histogram_def)
qed

lemma uniqueIps_eq:
  "uniqueIps events = Some ` {ip. ip \<noteq> [] \<and> (\<exists>e \<in> set events. e_ip_address e = Some ip)}"
proof (intro set_eqI iffI)
  fix v
  assume "v \<in> uniqueIps events"
  then obtain e where "e \<in> set events" "e_ip_address e = v" "truthy v"
    by (auto simp: uniqueIps_def)
  then show "v \<in> Some ` {ip. ip \<noteq> [] \<and> (\<exists>e \<in> set events. e_ip_address e = Some ip)}"
    by (cases v) (auto simp: truthy_def)
next
  fix v
  assume "v \<in> Some ` {ip. ip \<noteq> [] \<and> (\<exists>e \<in> set events. e_ip_address e = Some ip)}"
  then obtain ip e where "v = Some ip" "ip \<noteq> []" "e \<in> set events" "e_ip_address e = Some ip"
    by auto
  then show "v \<in> uniqueIps events"
    by (force simp: uniqueIps_def truthy_def)
qed

lemma card_uniqueIps:
  "card (uniqueIps events) = card {ip. ip \<noteq> [] \<and> (\<exists>e \<in> set events. e_ip_address e = Some ip)}"
  unfolding uniqueIps_eq by (rule card_image) simp

lemma these_ips:
  "Option.these (e_ip_address ` set events) = {ip. \<exists>e \<in> set events. e_ip_address e = Some ip}"
  by (force simp: Option.these_def image_iff)

text \<open>
  Claim C6, as the code has it. For every list of matching events, \<open>count\<close> is their
  number; \<open>uniqueUsers\<close> is the number of distinct IP-address values that are neither
  null nor the empty string, which is the specification's number whenever no event carries
  the empty string as its address; and \<open>deviceData\<close> maps every device value that is
  neither null nor the empty string to the number of events carrying it, and holds no entry
  for any other name. Events without a device are counted in \<open>count\<close> all the same. The
  statement leaves out the device values that are property names of
  \<^verbatim>\<open>Object.prototype\<close>, for which the object used as a dictionary does not hold a count.
\<close>

theorem summary_statistics_amended:
  "s_count (summary_statistics ev events) = length events \<and>
   uniqueUsers (summary_statistics ev events)
     = card {ip. ip \<noteq> [] \<and> (\<exists>e \<in> set events. e_ip_address e = Some ip)} \<and>
   ((\<forall>e \<in> set events. e_ip_address e \<noteq> Some []) \<longrightarrow>
      uniqueUsers (summary_statistics ev events) = spec_uniqueUsers events) \<and>
   (\<forall>d. d \<notin> set Object_prototype_keys \<longrightarrow>
      deviceData (summary_statistics ev events) d =
        (if d \<noteq> [] \<and> (\<exists>e \<in> set events. e_device e = Some d)
         then Some (JNumber (length (filter (\<lambda>e. e_device e = Some d) events)))
         else None))"
proof -
  have "{ip. ip \<noteq> [] \<and> (\<exists>e \<in> set events. e_ip_address e = Some ip)}
        = {ip. \<exists>e \<in> set events. e_ip_address e = Some ip}"
    if "\<forall>e \<in> set events. e_ip_address e \<noteq> Some []"
    using that by auto
  then show ?thesis
    by (simp add: summary_statistics_def card_uniqueIps device_histogram_at spec_uniqueUsers_def these_ips)
qed

theorem summary_statistics_amended_witness:
  "s_count (summary_statistics ''click''
     [\<lparr>e_app_id = ''app-1'', e_event = ''click'', e_url = ''/'', e_referrer = None,
       e_device = Some ''mobile'', e_ip_address = Some ''1.1.1.1'', e_user_agent = None,
       e_browser = None, e_os = None, e_screen_size = None, e_metadata = None,
       e_timestamp = 10\<rparr>,
      \<lparr>e_app_id = ''app-1'', e_event = ''click'', e_url = ''/'', e_referrer = None,
       e_device = Some ''mobile'', e_ip_address = Some ''1.1.1.1'', e_user_agent = None,
       e_browser = None, e_os = None, e_screen_size = None, e_metadata = None,
       e_timestamp = 11\<rparr>,
      \<lparr>e_app_id = ''app-1'', e_event = ''click'', e_url = ''/'', e_referrer = None,
       e_device = Some ''desktop'', e_ip_address = Some ''2.2.2.2'', e_user_agent = None,
       e_browser = None, e_os = None, e_screen_size = None, e_metadata = None,
       e_timestamp = 12\<rparr>]) = 3 \<and>
   uniqueUsers (summary_statistics ''click''
     [\<lparr>e_app_id = ''app-1'', e_event = ''click'', e_url = ''/'', e_referrer = None,
       e_device = Some ''mobile'', e_ip_address = Some ''1.1.1.1'', e_user_agent = None,
       e_browser = None, e_os = None, e_screen_size = None, e_metadata = None,
       e_timestamp = 10\<rparr>,
      \<lparr>e_app_id = ''app-1'', e_event = ''click'', e_url = ''/'', e_referrer = None,
       e_device = Some ''mobile'', e_ip_address = Some ''1.1.1.1'', e_user_agent = None,
       e_browser = None, e_os = None, e_screen_size = None, e_metadata = None,
       e_timestamp = 11\<rparr>,
      \<lparr>e_app_id = ''app-1'', e_event = ''click'', e_url = ''/'', e_referrer = None,
       e_device = Some ''desktop'', e_ip_address = Some ''2.2.2.2'', e_user_agent = None,
       e_browser = None, e_os = None, e_screen_size = None, e_metadata = None,
       e_timestamp = 12\<rparr>]) = 2 \<and>
   deviceData (summary_statistics ''click''
     [\<lparr>e_app_id = ''app-1'', e_event = ''click'', e_url = ''/'', e_referrer = None,
       e_device = Some ''mobile'', e_ip_address = Some ''1.1.1.1'', e_user_agent = None,
       e_browser = None, e_os = None, e_screen_size = None, e_metadata = None,
       e_timestamp = 10\<rparr>,
      \<lparr>e_app_id = ''app-1'', e_event = ''click'', e_url = ''/'', e_referrer = None,
       e_device = Some ''mobile'', e_ip_address = Some ''1.1.1.1'', e_user_agent = None,
       e_browser = None, e_os = None, e_screen_size = None, e_metadata = None,
       e_timestamp = 11\<rparr>,
      \<lparr>e_app_id = ''app-1'', e_event = ''click'', e_url = ''/'', e_referrer = None,
       e_device = Some ''desktop'', e_ip_address = Some ''2.2.2.2'', e_user_agent = None,
       e_browser = None, e_os = None, e_screen_size = None, e_metadata = None,
       e_timestamp = 12\<rparr>]) ''mobile'' = Some (JNumber 2) \<and>
   deviceData (summary_statistics ''click''
     [\<lparr>e_app_id = ''app-1'', e_event = ''click'', e_url = ''/'', e_referrer = None,
       e_device = Some ''mobile'', e_ip_address = Some ''1.1.1.1'', e_user_agent = None,
       e_browser = None, e_os = None, e_screen_size = None, e_metadata = None,
       e_timestamp = 10\<rparr>,
      \<lparr>e_app_id = ''app-1'', e_event = ''click'', e_url = ''/'', e_referrer = None,
       e_device = Some ''mobile'', e_ip_address = Some ''1.1.1.1'', e_user_agent = None,
       e_browser = None, e_os = None, e_screen_size = None, e_metadata = None,
       e_timestamp = 11\<rparr>,
      \<lparr>e_app_id = ''app-1'', e_event = ''click'', e_url = ''/'', e_referrer = None,
       e_device = Some ''desktop'', e_ip_address = Some ''2.2.2.2'', e_user_agent = None,
       e_browser = None, e_os = None, e_screen_size = None, e_metadata = None,
       e_timestamp = 12\<rparr>]) ''desktop'' = Some (JNumber 1) \<and>
   deviceData (summary_statistics ''click''
     [\<lparr>e_app_id = ''app-1'', e_event = ''click'', e_url = ''/'', e_referrer = None,
       e_device = Some ''mobile'', e_ip_address = Some ''1.1.1.1'', e_user_agent = None,
       e_browser = None, e_os = None, e_screen_size = None, e_metadata = None,
       e_timestamp = 10\<rparr>,
      \<lparr>e_app_id = ''app-1'', e_event = ''click'', e_url = ''/'', e_referrer = None,
       e_device = Some ''mobile'', e_ip_address = Some ''1.1.1.1'', e_user_agent = None,
       e_browser = None, e_os = None, e_screen_size = None, e_metadata = None,
       e_timestamp = 11\<rparr>,
      \<lparr>e_app_id = ''app-1'', e_event = ''click'', e_url = ''/'', e_referrer = None,
       e_device = Some ''desktop'', e_ip_address = Some ''2.2.2.2'', e_user_agent = None,
       e_browser = None, e_os = None, e_screen_size = None, e_metadata = None,
       e_timestamp = 12\<rparr>]) ''tablet'' = None"
proof -
  let ?es = "[\<lparr>e_app_id = ''app-1'', e_event = ''click'', e_url = ''/'', e_referrer = None,
       e_device = Some ''mobile'', e_ip_address = Some ''1.1.1.1'', e_user_agent = None,
       e_browser = None, e_os = None, e_screen_size = None, e_metadata = None,
       e_timestamp = 10\<rparr>,
      \<lparr>e_app_id = ''app-1'', e_event = ''click'', e_url = ''/'', e_referrer = None,
       e_device = Some ''mobile'', e_ip_address = Some ''1.1.1.1'', e_user_agent = None,
       e_browser = None, e_os = None, e_screen_size = None, e_metadata = None,
       e_timestamp = 11\<rparr>,
      \<lparr>e_app_id = ''app-1'', e_event = ''click'', e_url = ''/'', e_referrer = None,
       e_device = Some ''desktop'', e_ip_address = Some ''2.2.2.2'', e_user_agent = None,
       e_browser = None, e_os = None, e_screen_size = None, e_metadata = None,
       e_timestamp = 12\<rparr>]"
  note t = summary_statistics_amended [of "''click''" ?es]
  have k: "''mobile'' \<notin> set Object_prototype_keys" "''desktop'' \<notin> set Object_prototype_keys"
    "''tablet'' \<notin> set Object_prototype_keys"
    by (simp_all add: Object_prototype_keys_def)
  have ips: "{ip. ip \<noteq> [] \<and> (\<exists>e \<in> set ?es. e_ip_address e = Some ip)} = {''1.1.1.1'', ''2.2.2.2''}"
    by auto
  have u: "uniqueUsers (summary_statistics ''click'' ?es) = 2"
    using t unfolding ips by simp
  have m: "deviceData (summary_statistics ''click'' ?es) ''mobile'' = Some (JNumber 2)"
    using t k(1) by simp
  have d: "deviceData (summary_statistics ''click'' ?es) ''desktop'' = Some (JNumber 1)"
    using t k(2) by simp
  have n: "deviceData (summary_statistics ''click'' ?es) ''tablet'' = None"
    using t k(3) by simp
  show ?thesis using t u m d n by simp
qed

text \<open>
  Claim C6, as stated, fails: one event whose IP address is the empty string, a value that
  is not null, gives \<open>uniqueUsers = 0\<close>, where the set of distinct non-null values has
  one element.
\<close>

theorem empty_ip_not_counted:
  "uniqueUsers (summary_statistics ''click''
     [\<lparr>e_app_id = ''app-1'', e_event = ''click'', e_url = ''/'', e_referrer = None,
       e_device = None, e_ip_address = Some [], e_user_agent = None, e_browser = None,
       e_os = None, e_screen_size = None, e_metadata = None, e_timestamp = 10\<rparr>]) = 0 \<and>
   spec_uniqueUsers
     [\<lparr>e_app_id = ''app-1'', e_event = ''click'', e_url = ''/'', e_referrer = None,
       e_device = None, e_ip_address = Some [], e_user_agent = None, e_browser = None,
       e_os = None, e_screen_size = None, e_metadata = None, e_timestamp = 10\<rparr>] = 1"
  by (simp add: summary_statistics_def uniqueIps_def truthy_def spec_uniqueUsers_def)


section \<open>Empty optional fields of the payload\<close>

lemma collect_accepted_row:
  assumes "collect parseDate env req st = (OK msg, st')" and "c_body req = Some eventData"
  shows "\<exists>app_id ev u ts. analytics_events (db st')
           = analytics_events (db st) @ [new_event_row app_id ev u (user_agent req) eventData ts]"
  using assms
  by (auto simp: collect_def Let_def store_event_def split: option.splits sum.splits if_splits; blast)

lemma or_null_empty [simp]: "or_null (Some []) = None"
  by (simp add: or_null_def truthy_def)

lemma uniqueIps_null_ip:
  "e_ip_address row = None \<Longrightarrow> uniqueIps (before @ row # after) = uniqueIps (before @ after)"
  by (simp add: uniqueIps_def truthy_def)

lemma device_histogram_null_device:
  "e_device row = None \<Longrightarrow> device_histogram (before @ row # after) = device_histogram (before @ after)"
  by (simp add: device_histogram_def add_device_def)

text \<open>
  Claim C10. An accepted request appends exactly one row. Where the payload has the empty
  string as \<^verbatim>\<open>referrer\<close>, \<^verbatim>\<open>device\<close> or \<^verbatim>\<open>ipAddress\<close>, the row has null in that
  column. Wherever that row stands among the matching events of a later summary, it adds
  one to \<open>count\<close>; with an empty \<^verbatim>\<open>ipAddress\<close> it leaves \<open>uniqueUsers\<close> as it
  would be without the row, and with an empty \<^verbatim>\<open>device\<close> it leaves \<open>deviceData\<close> so.
\<close>

theorem empty_fields_stored_as_null:
  assumes "collect parseDate env req st = (OK msg, st')" and "c_body req = Some eventData"
    and "row = last (analytics_events (db st'))"
  shows "analytics_events (db st') = analytics_events (db st) @ [row] \<and>
         (referrer eventData = Some [] \<longrightarrow> e_referrer row = None) \<and>
         (device eventData = Some [] \<longrightarrow>
            e_device row = None \<and>
            deviceData (summary_statistics ev (before @ row # after))
              = deviceData (summary_statistics ev (before @ after))) \<and>
         (ipAddress eventData = Some [] \<longrightarrow>
            e_ip_address row = None \<and>
            uniqueUsers (summary_statistics ev (before @ row # after))
              = uniqueUsers (summary_statistics ev (before @ after))) \<and>
         s_count (summary_statistics ev (before @ row # after))
           = s_count (summary_statistics ev (before @ after)) + 1"
proof -
  from collect_accepted_row [OF assms(1,2)]
  obtain app_id ev' u ts where app: "analytics_events (db st')
      = analytics_events (db st) @ [new_event_row app_id ev' u (user_agent req) eventData ts]"
    by blast
  then have row: "row = new_event_row app_id ev' u (user_agent req) eventData ts"
    using assms(3) by simp
  have r: "referrer eventData = Some [] \<Longrightarrow> e_referrer row = None"
    and d: "device eventData = Some [] \<Longrightarrow> e_device row = None"
    and i: "ipAddress eventData = Some [] \<Longrightarrow> e_ip_address row = None"
    by (simp_all add: row new_event_row_def)
  show ?thesis
    using app row r d i uniqueIps_null_ip [of row before after]
      device_histogram_null_device [of row before after]
    by (auto simp: summary_statistics_def)
qed

theorem empty_fields_stored_as_null_witness:
  "collect Map.empty
        \<lparr>now_rate_limit = 5, now_expiry = 7, now_insert = 8, now_last_used = 9, insert_fails = False\<rparr>
        \<lparr>c_is_options = False, x_api_key = Some ''ak_live'', user_agent = Some ''agent'',
         c_body = Some \<lparr>event = Some ''click'', url = Some ''/home'', referrer = Some [], device = Some [],
                        ipAddress = Some [], timestamp = None, metadata = None\<rparr>\<rparr>
        \<lparr>rateLimitMap = Map.empty,
         db = \<lparr>apps = [], api_keys =
           [\<lparr>k_id = ''key-1'', k_app_id = ''app-1'', k_user_id = ''user-1'',
            k_key_hash = hashApiKey ''ak_live'', k_key_prefix = ''ak_live'', k_is_active = True,
            k_expires_at = None, k_last_used_at = None, k_revoked_at = None\<rparr>],
           analytics_events = []\<rparr>\<rparr>
   = (OK ''Event collected successfully'',
      \<lparr>rateLimitMap = [hashApiKey ''ak_live'' \<mapsto> \<lparr>count = 1, resetAt = 60005\<rparr>],
         db = \<lparr>apps = [], api_keys =
           [\<lparr>k_id = ''key-1'', k_app_id = ''app-1'', k_user_id = ''user-1'',
            k_key_hash = hashApiKey ''ak_live'', k_key_prefix = ''ak_live'', k_is_active = True,
            k_expires_at = None, k_last_used_at = Some 9, k_revoked_at = None\<rparr>],
           analytics_events = 
      [\<lparr>e_app_id = ''app-1'', e_event = ''click'', e_url = ''/home'', e_referrer = None,
       e_device = None, e_ip_address = None, e_user_agent = Some ''agent'',
       e_browser = None, e_os = None, e_screen_size = None, e_metadata = None,
       e_timestamp = 8\<rparr>]\<rparr>\<rparr>) \<and>
   uniqueUsers (summary_statistics ''click''
     [\<lparr>e_app_id = ''app-1'', e_event = ''click'', e_url = ''/'', e_referrer = None,
       e_device = Some ''mobile'', e_ip_address = Some ''1.1.1.1'', e_user_agent = None,
       e_browser = None, e_os = None, e_screen_size = None, e_metadata = None,
       e_timestamp = 10\<rparr>,
      \<lparr>e_app_id = ''app-1'', e_event = ''click'', e_url = ''/home'', e_referrer = None,
       e_device = None, e_ip_address = None, e_user_agent = Some ''agent'',
       e_browser = None, e_os = None, e_screen_size = None, e_metadata = None,
       e_timestamp = 8\<rparr>])
     = uniqueUsers (summary_statistics ''click''
     [\<lparr>e_app_id = ''app-1'', e_event = ''click'', e_url = ''/'', e_referrer = None,
       e_device = Some ''mobile'', e_ip_address = Some ''1.1.1.1'', e_user_agent = None,
       e_browser = None, e_os = None, e_screen_size = None, e_metadata = None,
       e_timestamp = 10\<rparr>]) \<and>
   deviceData (summary_statistics ''click''
     [\<lparr>e_app_id = ''app-1'', e_event = ''click'', e_url = ''/'', e_referrer = None,
       e_device = Some ''mobile'', e_ip_address = Some ''1.1.1.1'', e_user_agent = None,
       e_browser = None, e_os = None, e_screen_size = None, e_metadata = None,
       e_timestamp = 10\<rparr>,
      \<lparr>e_app_id = ''app-1'', e_event = ''click'', e_url = ''/home'', e_referrer = None,
       e_device = None, e_ip_address = None, e_user_agent = Some ''agent'',
       e_browser = None, e_os = None, e_screen_size = None, e_metadata = None,
       e_timestamp = 8\<rparr>])
     = deviceData (summary_statistics ''click''
     [\<lparr>e_app_id = ''app-1'', e_event = ''click'', e_url = ''/'', e_referrer = None,
       e_device = Some ''mobile'', e_ip_address = Some ''1.1.1.1'', e_user_agent = None,
       e_browser = None, e_os = None, e_screen_size = None, e_metadata = None,
       e_timestamp = 10\<rparr>]) \<and>
   s_count (summary_statistics ''click''
     [\<lparr>e_app_id = ''app-1'', e_event = ''click'', e_url = ''/'', e_referrer = None,
       e_device = Some ''mobile'', e_ip_address = Some ''1.1.1.1'', e_user_agent = None,
       e_browser = None, e_os = None, e_screen_size = None, e_metadata = None,
       e_timestamp = 10\<rparr>,
      \<lparr>e_app_id = ''app-1'', e_event = ''click'', e_url = ''/home'', e_referrer = None,
       e_device = None, e_ip_address = None, e_user_agent = Some ''agent'',
       e_browser = None, e_os = None, e_screen_size = None, e_metadata = None,
       e_timestamp = 8\<rparr>])
     = s_count (summary_statistics ''click''
     [\<lparr>e_app_id = ''app-1'', e_event = ''click'', e_url = ''/'', e_referrer = None,
       e_device = Some ''mobile'', e_ip_address = Some ''1.1.1.1'', e_user_agent = None,
       e_browser = None, e_os = None, e_screen_size = None, e_metadata = None,
       e_timestamp = 10\<rparr>]) + 1"
proof -
  let ?env = "\<lparr>now_rate_limit = 5, now_expiry = 7, now_insert = 8, now_last_used = 9, insert_fails = False\<rparr>"
  let ?req = "\<lparr>c_is_options = False, x_api_key = Some ''ak_live'', user_agent = Some ''agent'',
         c_body = Some \<lparr>event = Some ''click'', url = Some ''/home'', referrer = Some [], device = Some [],
                        ipAddress = Some [], timestamp = None, metadata = None\<rparr>\<rparr>"
  let ?st = "\<lparr>rateLimitMap = Map.empty,
         db = \<lparr>apps = [], api_keys =
           [\<lparr>k_id = ''key-1'', k_app_id = ''app-1'', k_user_id = ''user-1'',
            k_key_hash = hashApiKey ''ak_live'', k_key_prefix = ''ak_live'', k_is_active = True,
            k_expires_at = None, k_last_used_at = None, k_revoked_at = None\<rparr>],
           analytics_events = []\<rparr>\<rparr>"
  let ?st' = "\<lparr>rateLimitMap = [hashApiKey ''ak_live'' \<mapsto> \<lparr>count = 1, resetAt = 60005\<rparr>],
         db = \<lparr>apps = [], api_keys =
           [\<lparr>k_id = ''key-1'', k_app_id = ''app-1'', k_user_id = ''user-1'',
            k_key_hash = hashApiKey ''ak_live'', k_key_prefix = ''ak_live'', k_is_active = True,
            k_expires_at = None, k_last_used_at = Some 9, k_revoked_at = None\<rparr>],
           analytics_events = 
      [\<lparr>e_app_id = ''app-1'', e_event = ''click'', e_url = ''/home'', e_referrer = None,
       e_device = None, e_ip_address = None, e_user_agent = Some ''agent'',
       e_browser = None, e_os = None, e_screen_size = None, e_metadata = None,
       e_timestamp = 8\<rparr>]\<rparr>\<rparr>"
  let ?row = "\<lparr>e_app_id = ''app-1'', e_event = ''click'', e_url = ''/home'', e_referrer = None,
       e_device = None, e_ip_address = None, e_user_agent = Some ''agent'',
       e_browser = None, e_os = None, e_screen_size = None, e_metadata = None,
       e_timestamp = 8\<rparr>"
  let ?e1 = "\<lparr>e_app_id = ''app-1'', e_event = ''click'', e_url = ''/'', e_referrer = None,
       e_device = Some ''mobile'', e_ip_address = Some ''1.1.1.1'', e_user_agent = None,
       e_browser = None, e_os = None, e_screen_size = None, e_metadata = None,
       e_timestamp = 10\<rparr>"
  have c: "collect Map.empty ?env ?req ?st = (OK ''Event collected successfully'', ?st')"
    by (simp add: collect_def Let_def checkRateLimit_def RATE_LIMIT_WINDOW_def verify_api_key_def
          single_def store_event_def event_timestamp_def new_event_row_def or_null_def truthy_def)
  show ?thesis
    using c empty_fields_stored_as_null [OF c, where row = ?row and before = "[?e1]" and after = "[]"
        and eventData = "\<lparr>event = Some ''click'', url = Some ''/home'', referrer = Some [], device = Some [],
                        ipAddress = Some [], timestamp = None, metadata = None\<rparr>" and ev = "''click''"]
    by simp
qed

section \<open>Round trip of an issued key\<close>

lemma generate_api_key_nonempty: "generate_api_key uuid \<noteq> []"
  by (simp add: generate_api_key_def)

lemma register_accepted:
  assumes "register genv greq d = (OK out, d1)"
  shows "\<exists>uid row. g_user genv = Some uid \<and>
           reg_apiKey out = generate_api_key (randomUUID genv) \<and>
           a_id (reg_app out) = new_app_id genv \<and> a_user_id (reg_app out) = uid \<and>
           apps d1 = apps d @ [reg_app out] \<and>
           analytics_events d1 = analytics_events d \<and>
           api_keys d1 = api_keys d @ [row] \<and>
           k_id row = new_key_id genv \<and> k_app_id row = new_app_id genv \<and> k_user_id row = uid \<and>
           k_key_hash row = hashApiKey (reg_apiKey out) \<and>
           k_key_prefix row = take 12 (reg_apiKey out) \<and>
           k_is_active row \<and> k_expires_at row = None \<and>
           hashApiKey (reg_apiKey out) \<notin> set (map k_key_hash (api_keys d))"
  using assms
  by (auto simp: register_def Let_def split: option.splits if_splits)

lemma filter_unique_hash:
  assumes "h \<notin> set (map k_key_hash keys)" and "k_key_hash row = h"
  shows "filter (\<lambda>k. k_key_hash k = h) (keys @ [row]) = [row]"
proof -
  have "filter (\<lambda>k. k_key_hash k = h) keys = []"
    using assms(1) by (auto simp: filter_empty_conv)
  then show ?thesis using assms(2) by simp
qed

lemma filter_map_preserving:
  assumes "\<And>k. P (f k) = P k"
  shows "filter P (map f ks) = map f (filter P ks)"
  by (induction ks) (auto simp: assms)

lemma revoke_accepted:
  assumes "revoke renv rreq d1 = (OK ack, d2)"
  shows "\<exists>uid b kid. r_user renv = Some uid \<and> r_body rreq = Some b \<and> api_key_id b = Some kid \<and>
           api_keys d2 = map (\<lambda>k. if k_id k = kid \<and> k_user_id k = uid
                     then k\<lparr>k_is_active := False, k_revoked_at := Some (now_revoked renv)\<rparr> else k)
             (api_keys d1)"
  using assms
  by (auto simp: revoke_def split: option.splits if_splits)

text \<open>
  Claim C8. After a successful registration the secret returned to the caller hashes to
  the hash of exactly one stored key, the new one, which is active and has no expiry: a
  request presenting the secret, once admitted by the rate limiter, passes the key checks
  with the new app as owner and goes on to store its event. After the owner has revoked
  that key, the same request is answered Revoked.
\<close>

theorem issued_key_round_trip:
  assumes reg: "register genv greq d = (OK out, d1)"
    and req: "\<not> c_is_options req" "x_api_key req = Some (reg_apiKey out)"
    and adm: "fst (checkRateLimit (now_rate_limit env) (hashApiKey (reg_apiKey out)) m)"
  shows "(\<exists>r. verify_api_key (now_expiry env) (hashApiKey (reg_apiKey out)) (api_keys d1) = Inr r \<and>
              k_app_id r = a_id (reg_app out) \<and>
              fst (collect parseDate env req \<lparr>rateLimitMap = m, db = d1\<rparr>)
                = fst (store_event parseDate env req r d1)) \<and>
         (revoke renv rreq d1 = (OK ack, d2) \<and> r_user renv = g_user genv \<and>
          r_body rreq = Some \<lparr>api_key_id = Some (new_key_id genv)\<rparr>
          \<longrightarrow> verify_api_key (now_expiry env) (hashApiKey (reg_apiKey out)) (api_keys d2) = Inl Revoked \<and>
              fst (collect parseDate env req \<lparr>rateLimitMap = m, db = d2\<rparr>) = Rejected Revoked)"
proof -
  let ?h = "hashApiKey (reg_apiKey out)"
  from register_accepted [OF reg]
  obtain uid row where u: "g_user genv = Some uid"
    and key: "reg_apiKey out = generate_api_key (randomUUID genv)"
    and app: "a_id (reg_app out) = new_app_id genv"
    and keys: "api_keys d1 = api_keys d @ [row]"
    and row: "k_id row = new_key_id genv" "k_app_id row = new_app_id genv" "k_user_id row = uid"
      "k_key_hash row = ?h" "k_is_active row" "k_expires_at row = None"
    and fresh: "?h \<notin> set (map k_key_hash (api_keys d))"
    by blast
  have ne: "reg_apiKey out \<noteq> []"
    using key generate_api_key_nonempty by simp
  have f1: "filter (\<lambda>k. k_key_hash k = ?h) (api_keys d1) = [row]"
    using filter_unique_hash [OF fresh row(4)] keys by simp
  have v1: "verify_api_key (now_expiry env) ?h (api_keys d1) = Inr row"
    using verify_api_key_match [OF f1, of "now_expiry env"] row by simp
  have c1: "fst (collect parseDate env req \<lparr>rateLimitMap = m, db = d1\<rparr>)
      = fst (store_event parseDate env req row d1)"
    using collect_unfold [OF req(1) req(2) ne, of parseDate env "\<lparr>rateLimitMap = m, db = d1\<rparr>"] adm v1
    by simp
  have after: "verify_api_key (now_expiry env) ?h (api_keys d2) = Inl Revoked \<and>
      fst (collect parseDate env req \<lparr>rateLimitMap = m, db = d2\<rparr>) = Rejected Revoked"
    if rv: "revoke renv rreq d1 = (OK ack, d2)" and ru: "r_user renv = g_user genv"
      and rb: "r_body rreq = Some \<lparr>api_key_id = Some (new_key_id genv)\<rparr>"
  proof -
    let ?f = "\<lambda>k. if k_id k = new_key_id genv \<and> k_user_id k = uid
                     then k\<lparr>k_is_active := False, k_revoked_at := Some (now_revoked renv)\<rparr> else k"
    from revoke_accepted [OF rv] ru rb u
    have keys2: "api_keys d2 = map ?f (api_keys d1)"
      by auto
    have "filter (\<lambda>k. k_key_hash k = ?h) (map ?f (api_keys d1))
        = map ?f (filter (\<lambda>k. k_key_hash k = ?h) (api_keys d1))"
      by (rule filter_map_preserving) simp
    then have f2: "filter (\<lambda>k. k_key_hash k = ?h) (api_keys d2) = [?f row]"
      using keys2 f1 by simp
    have inactive: "\<not> k_is_active (?f row)"
      using row by simp
    have v2: "verify_api_key (now_expiry env) ?h (api_keys d2) = Inl Revoked"
      using verify_api_key_match [OF f2, of "now_expiry env"] inactive by simp
    have "fst (collect parseDate env req \<lparr>rateLimitMap = m, db = d2\<rparr>) = Rejected Revoked"
      using collect_unfold [OF req(1) req(2) ne, of parseDate env "\<lparr>rateLimitMap = m, db = d2\<rparr>"] adm v2
      by simp
    with v2 show ?thesis by simp
  qed
  show ?thesis
    using v1 c1 row(2) app after by auto
qed

theorem issued_key_round_trip_witness:
  "register \<lparr>g_user = Some ''user-1'', new_app_id = ''app-1'', new_key_id = ''key-1'',
       randomUUID = ''123e4567-e89b-12d3-a456-426614174000'', app_insert_fails = False,
       key_insert_fails = False\<rparr>
     \<lparr>g_is_options = False, g_authorization = Some ''Bearer t'',
       g_body = Some \<lparr>name = Some ''A'', domain = Some ''a.example'', description = None\<rparr>\<rparr>
     \<lparr>apps = [], api_keys = [], analytics_events = []\<rparr>
   = (OK \<lparr>reg_app = \<lparr>a_id = ''app-1'', a_user_id = ''user-1'', a_name = ''A'', a_domain = ''a.example'',
          a_description = None\<rparr>,
        reg_apiKey = ''ak_123e4567e89b12d3a456426614174000''\<rparr>,
      \<lparr>apps = [\<lparr>a_id = ''app-1'', a_user_id = ''user-1'', a_name = ''A'', a_domain = ''a.example'',
          a_description = None\<rparr>],
        api_keys =
          [\<lparr>k_id = ''key-1'', k_app_id = ''app-1'', k_user_id = ''user-1'',
            k_key_hash = hashApiKey ''ak_123e4567e89b12d3a456426614174000'',
            k_key_prefix = ''ak_123e4567e'', k_is_active = True, k_expires_at = None,
            k_last_used_at = None, k_revoked_at = None\<rparr>],
        analytics_events = []\<rparr>) \<and>
   fst (collect Map.empty
         \<lparr>now_rate_limit = 5, now_expiry = 7, now_insert = 8, now_last_used = 9, insert_fails = False\<rparr>
         \<lparr>c_is_options = False, x_api_key = Some ''ak_123e4567e89b12d3a456426614174000'',
         user_agent = None,
         c_body = Some \<lparr>event = Some ''click'', url = Some ''/home'', referrer = None, device = None,
                        ipAddress = None, timestamp = None, metadata = None\<rparr>\<rparr>
         \<lparr>rateLimitMap = Map.empty, db =
       \<lparr>apps = [\<lparr>a_id = ''app-1'', a_user_id = ''user-1'', a_name = ''A'', a_domain = ''a.example'',
          a_description = None\<rparr>],
        api_keys =
          [\<lparr>k_id = ''key-1'', k_app_id = ''app-1'', k_user_id = ''user-1'',
            k_key_hash = hashApiKey ''ak_123e4567e89b12d3a456426614174000'',
            k_key_prefix = ''ak_123e4567e'', k_is_active = True, k_expires_at = None,
            k_last_used_at = None, k_revoked_at = None\<rparr>],
        analytics_events = []\<rparr>\<rparr>)
   = OK ''Event collected successfully'' \<and>
   revoke \<lparr>r_user = Some ''user-1'', now_revoked = 1000, update_fails = False\<rparr>
     \<lparr>r_is_options = False, r_authorization = Some ''Bearer t'',
       r_body = Some \<lparr>api_key_id = Some ''key-1''\<rparr>\<rparr>
     \<lparr>apps = [\<lparr>a_id = ''app-1'', a_user_id = ''user-1'', a_name = ''A'', a_domain = ''a.example'',
          a_description = None\<rparr>],
        api_keys =
          [\<lparr>k_id = ''key-1'', k_app_id = ''app-1'', k_user_id = ''user-1'',
            k_key_hash = hashApiKey ''ak_123e4567e89b12d3a456426614174000'',
            k_key_prefix = ''ak_123e4567e'', k_is_active = True, k_expires_at = None,
            k_last_used_at = None, k_revoked_at = None\<rparr>],
        analytics_events = []\<rparr>
   = (OK ''API key revoked successfully'',
      \<lparr>apps = [\<lparr>a_id = ''app-1'', a_user_id = ''user-1'', a_name = ''A'', a_domain = ''a.example'',
          a_description = None\<rparr>],
        api_keys =
          [\<lparr>k_id = ''key-1'', k_app_id = ''app-1'', k_user_id = ''user-1'',
            k_key_hash = hashApiKey ''ak_123e4567e89b12d3a456426614174000'',
            k_key_prefix = ''ak_123e4567e'', k_is_active = False, k_expires_at = None,
            k_last_used_at = None, k_revoked_at = Some 1000\<rparr>],
        analytics_events = []\<rparr>) \<and>
   fst (collect Map.empty
         \<lparr>now_rate_limit = 5, now_expiry = 7, now_insert = 8, now_last_used = 9, insert_fails = False\<rparr>
         \<lparr>c_is_options = False, x_api_key = Some ''ak_123e4567e89b12d3a456426614174000'',
         user_agent = None,
         c_body = Some \<lparr>event = Some ''click'', url = Some ''/home'', referrer = None, device = None,
                        ipAddress = None, timestamp = None, metadata = None\<rparr>\<rparr>
         \<lparr>rateLimitMap = Map.empty, db =
       \<lparr>apps = [\<lparr>a_id = ''app-1'', a_user_id = ''user-1'', a_name = ''A'', a_domain = ''a.example'',
          a_description = None\<rparr>],
        api_keys =
          [\<lparr>k_id = ''key-1'', k_app_id = ''app-1'', k_user_id = ''user-1'',
            k_key_hash = hashApiKey ''ak_123e4567e89b12d3a456426614174000'',
            k_key_prefix = ''ak_123e4567e'', k_is_active = False, k_expires_at = None,
            k_last_used_at = None, k_revoked_at = Some 1000\<rparr>],
        analytics_events = []\<rparr>\<rparr>)
   = Rejected Revoked"
proof -
  let ?genv = "\<lparr>g_user = Some ''user-1'', new_app_id = ''app-1'', new_key_id = ''key-1'',
       randomUUID = ''123e4567-e89b-12d3-a456-426614174000'', app_insert_fails = False,
       key_insert_fails = False\<rparr>"
  let ?greq = "\<lparr>g_is_options = False, g_authorization = Some ''Bearer t'',
       g_body = Some \<lparr>name = Some ''A'', domain = Some ''a.example'', description = None\<rparr>\<rparr>"
  let ?out = "\<lparr>reg_app = \<lparr>a_id = ''app-1'', a_user_id = ''user-1'', a_name = ''A'', a_domain = ''a.example'',
          a_description = None\<rparr>,
        reg_apiKey = ''ak_123e4567e89b12d3a456426614174000''\<rparr>"
  let ?d1 = "\<lparr>apps = [\<lparr>a_id = ''app-1'', a_user_id = ''user-1'', a_name = ''A'', a_domain = ''a.example'',
          a_description = None\<rparr>],
        api_keys =
          [\<lparr>k_id = ''key-1'', k_app_id = ''app-1'', k_user_id = ''user-1'',
            k_key_hash = hashApiKey ''ak_123e4567e89b12d3a456426614174000'',
            k_key_prefix = ''ak_123e4567e'', k_is_active = True, k_expires_at = None,
            k_last_used_at = None, k_revoked_at = None\<rparr>],
        analytics_events = []\<rparr>"
  let ?d2 = "\<lparr>apps = [\<lparr>a_id = ''app-1'', a_user_id = ''user-1'', a_name = ''A'', a_domain = ''a.example'',
          a_description = None\<rparr>],
        api_keys =
          [\<lparr>k_id = ''key-1'', k_app_id = ''app-1'', k_user_id = ''user-1'',
            k_key_hash = hashApiKey ''ak_123e4567e89b12d3a456426614174000'',
            k_key_prefix = ''ak_123e4567e'', k_is_active = False, k_expires_at = None,
            k_last_used_at = None, k_revoked_at = Some 1000\<rparr>],
        analytics_events = []\<rparr>"
  let ?env = "\<lparr>now_rate_limit = 5, now_expiry = 7, now_insert = 8, now_last_used = 9, insert_fails = False\<rparr>"
  let ?req = "\<lparr>c_is_options = False, x_api_key = Some ''ak_123e4567e89b12d3a456426614174000'',
         user_agent = None,
         c_body = Some \<lparr>event = Some ''click'', url = Some ''/home'', referrer = None, device = None,
                        ipAddress = None, timestamp = None, metadata = None\<rparr>\<rparr>"
  let ?renv = "\<lparr>r_user = Some ''user-1'', now_revoked = 1000, update_fails = False\<rparr>"
  let ?rreq = "\<lparr>r_is_options = False, r_authorization = Some ''Bearer t'',
       r_body = Some \<lparr>api_key_id = Some ''key-1''\<rparr>\<rparr>"
  let ?k = "\<lparr>k_id = ''key-1'', k_app_id = ''app-1'', k_user_id = ''user-1'',
            k_key_hash = hashApiKey ''ak_123e4567e89b12d3a456426614174000'',
            k_key_prefix = ''ak_123e4567e'', k_is_active = True, k_expires_at = None,
            k_last_used_at = None, k_revoked_at = None\<rparr>"
  have reg: "register ?genv ?greq \<lparr>apps = [], api_keys = [], analytics_events = []\<rparr> = (OK ?out, ?d1)"
    by (simp add: register_def Let_def truthy_def or_null_def generate_api_key_def)
  have rv: "revoke ?renv ?rreq ?d1 = (OK ''API key revoked successfully'', ?d2)"
    by (simp add: revoke_def truthy_def)
  have adm: "fst (checkRateLimit (now_rate_limit ?env) (hashApiKey (reg_apiKey ?out)) Map.empty)"
    by (simp add: checkRateLimit_def)
  note t = issued_key_round_trip [OF reg, where req = ?req and env = ?env and m = Map.empty
      and parseDate = Map.empty and renv = ?renv and rreq = ?rreq
      and ack = "''API key revoked successfully''" and ?d2.0 = ?d2, OF _ _ adm]
  have v: "verify_api_key (now_expiry ?env) (hashApiKey (reg_apiKey ?out)) (api_keys ?d1) = Inr ?k"
    by (simp add: verify_api_key_def single_def)
  have "fst (collect Map.empty ?env ?req \<lparr>rateLimitMap = Map.empty, db = ?d1\<rparr>)
      = fst (store_event Map.empty ?env ?req ?k ?d1)"
    using t v by auto
  then have ok: "fst (collect Map.empty ?env ?req \<lparr>rateLimitMap = Map.empty, db = ?d1\<rparr>)
      = OK ''Event collected successfully''"
    by (simp add: store_event_def event_timestamp_def)
  have revoked: "fst (collect Map.empty ?env ?req \<lparr>rateLimitMap = Map.empty, db = ?d2\<rparr>)
      = Rejected Revoked"
    using t rv by simp
  show ?thesis using reg ok rv revoked by blast
qed

end
